theory Spec2Isabelle
  imports Main "HOL-Library.AList"
begin

section \<open>JavaScript values\<close>

text \<open>
  The values a consumer can hand to the completion callback, and the values Redis hands
  back. Numbers are integers here (timestamps and counters); an object is identified
  by a description, since only its type and truthiness are ever inspected.
\<close>

datatype jsval = JUndefined | JNull | JBool bool | JNum int | JStr string | JObj string

fun isString :: "jsval \<Rightarrow> bool" where
  "isString (JStr s) = True"
| "isString v = False"

fun isBoolean :: "jsval \<Rightarrow> bool" where
  "isBoolean (JBool b) = True"
| "isBoolean v = False"

text \<open>JavaScript truthiness: what \<^verbatim>\<open>if (v)\<close> and \<^verbatim>\<open>!v\<close> look at.\<close>

fun truthy :: "jsval \<Rightarrow> bool" where
  "truthy JUndefined = False"
| "truthy JNull = False"
| "truthy (JBool b) = b"
| "truthy (JNum n) = (n \<noteq> 0)"
| "truthy (JStr s) = (s \<noteq> [])"
| "truthy (JObj d) = True"

datatype js_exn = JsError string | JsTypeError string

section \<open>States, Process Items and Job Items\<close>

text \<open>
  Modelled from the spec: the module \<^verbatim>\<open>states\<close> (required by the job model and the worker,
  its file is not among the sources). Section 3.1 lists the job states and section 3.2 the
  states of a Process Item; the two enumerations are \<^verbatim>\<open>states.Job\<close> and
  \<^verbatim>\<open>states.Process\<close>.
\<close>

datatype job_state =
  Job_NEW | Job_DELAYED | Job_QUEUED | Job_PROCESSING | Job_RETRY | Job_GHOST
  | Job_SUCCESS | Job_FAIL

datatype process_state = Process_PROCESSING | Process_SUCCESS | Process_FAIL | Process_GHOST

text \<open>
  A Process Item (section 3.2). \<open>processTime\<close> is a number of milliseconds; the field
  \<open>timeout\<close> holds the delay of the timer armed for the attempt, if any.
\<close>

record process_item =
  count :: nat
  startTime :: int
  processTime :: int
  pi_state :: process_state
  errorMessage :: jsval
  timeout :: "int option"

text \<open>
  A Job Item (section 3.1). A field that JavaScript may hold as \<^verbatim>\<open>null\<close> is an option:
  the id before allocation, the state when the hash has no state field, \<open>success\<close> and
  \<open>finishTime\<close> before the terminal transition. \<open>x_processCount\<close> is the logger
  field \<^verbatim>\<open>_processCount\<close>.
\<close>

record job_item =
  job_id :: "string option"
  name :: string
  data :: jsval
  state :: "job_state option"
  complete :: bool
  success :: "bool option"
  finishTime :: "int option"
  totalProcessTime :: int
  retry :: bool
  retryTimes :: int
  retryInterval :: int
  ghostRetry :: bool
  ghostTimes :: int
  ghostInterval :: int
  processTimeout :: int
  runs :: "process_item list"
  lastError :: jsval
  x_processCount :: "int option"

section \<open>The job model: construction and fetch\<close>

text \<open>
  Modelled from the spec: the error classes of \<^verbatim>\<open>utility/kerror\<close> (not among the sources).
  Section 7 names them StorageError (\<^verbatim>\<open>kError.Database\<close>), NotFound (\<^verbatim>\<open>kError.NoRecord\<close>)
  and Corrupt (\<^verbatim>\<open>kError.JSON\<close>); each carries what its constructor was given.
\<close>

datatype kerror = Database string | NoRecord "string option" | JSON string

record job_model =
  job :: "job_item option"
  jobId :: "string option"
  hasJobItem :: bool

text \<open>
  What the constructor can be given: a string, a Job Item, or anything else.
\<close>

datatype model_arg = ArgString string | ArgJobItem job_item | ArgOther jsval

fun JobModel :: "model_arg \<Rightarrow> js_exn + job_model" where
  "JobModel (ArgString s) =
     (if s \<noteq> [] then Inr \<lparr>job = None, jobId = Some s, hasJobItem = False\<rparr>
      else Inl (JsTypeError ''Argument not string or Kickq.JobItem''))"
| "JobModel (ArgJobItem j) = Inr \<lparr>job = Some j, jobId = job_id j, hasJobItem = True\<rparr>"
| "JobModel (ArgOther v) = Inl (JsTypeError ''Argument not string or Kickq.JobItem'')"

text \<open>
  \<^verbatim>\<open>fetch\<close> either throws or issues one \<^verbatim>\<open>hmget\<close> on the job's key, for the two
  fields named, and returns the promise.
  The namespace \<open>NS\<close> comes from the base model.
\<close>

datatype fetch_call = FetchThrows js_exn | FetchHmget string "string list"

definition fetch :: "string \<Rightarrow> job_model \<Rightarrow> fetch_call" where
  "fetch NS m =
     (if hasJobItem m then FetchThrows (JsError ''Instance already contains a job item'')
      else case jobId m of
             None \<Rightarrow> FetchThrows (JsError ''No job id has been defined'')
           | Some i \<Rightarrow> FetchHmget (NS @ '':job:'' @ i) [''itemData'', ''state''])"

text \<open>
  \<^verbatim>\<open>JSON.parse\<close> is a parameter: it throws, or returns \<^verbatim>\<open>null\<close>, or returns the object
  that the Job Item constructor copies. Assigning a property on \<^verbatim>\<open>null\<close> throws a TypeError
  out of the Redis callback.
\<close>

datatype parsed = ParseThrows string | ParsedNull | ParsedObject job_item

datatype fetch_result = Resolve job_item | Reject kerror | Throws js_exn

text \<open>
  Modelled from the spec: the constructor \<^verbatim>\<open>JobItem\<close> applied to a plain object (its file is
  not among the sources). Section 4.1 has fetch deserialize \<open>itemData\<close> as the canonical
  record, so the constructor keeps every declared field.
\<close>

definition fetchResponse ::
  "(string \<Rightarrow> parsed) \<Rightarrow> job_model \<Rightarrow> string option \<Rightarrow> string option \<times> job_state option
     \<Rightarrow> job_model \<times> fetch_result" where
  "fetchResponse JSON_parse m err response =
     (case (if err = Some [] then None else err) of
        Some e \<Rightarrow> (m, Reject (Database e))
      | None \<Rightarrow>
          (case fst response of
             None \<Rightarrow> (m, Reject (NoRecord (jobId m)))
           | Some itemData \<Rightarrow>
               (case JSON_parse itemData of
                  ParseThrows ex \<Rightarrow> (m, Reject (JSON ex))
                | ParsedNull \<Rightarrow> (m, Throws (JsTypeError ''Cannot set property state of null''))
                | ParsedObject jobItem \<Rightarrow>
                    (let j = jobItem\<lparr>state := snd response\<rparr>;
                         m' = m\<lparr>job := Some j\<rparr>
                     in if jobId m' \<noteq> job_id j then (m', Reject (NoRecord (jobId m')))
                        else (m'\<lparr>hasJobItem := True\<rparr>, Resolve j)))))"

section \<open>The outcome processor\<close>

text \<open>\<^verbatim>\<open>_finishJob\<close>: the terminal transition. \<open>now\<close> is the reading of \<^verbatim>\<open>Date.now()\<close>.\<close>

definition finishJob :: "bool \<Rightarrow> int \<Rightarrow> job_item \<Rightarrow> job_item" where
  "finishJob outcome now j =
     j\<lparr>complete := True,
       success := Some outcome,
       state := Some (if outcome then Job_SUCCESS else Job_FAIL),
       finishTime := Some now,
       totalProcessTime := foldl (\<lambda>total p. total + processTime p) 0 (runs j)\<rparr>"

definition processedError :: "int \<Rightarrow> job_item \<Rightarrow> job_item" where
  "processedError now j =
     (if \<not> retry j then finishJob False now j
      else if int (length (runs j)) < retryTimes j then j\<lparr>state := Some Job_RETRY\<rparr>
      else finishJob False now j)"

definition ghostCount :: "process_item list \<Rightarrow> nat" where
  "ghostCount rs = foldl (\<lambda>c p. if Process_GHOST = pi_state p then c + 1 else c) 0 rs"

definition processedTimeout :: "int \<Rightarrow> job_item \<Rightarrow> job_item" where
  "processedTimeout now j =
     (if \<not> ghostRetry j then finishJob False now j
      else if int (ghostCount (runs j)) > ghostTimes j then finishJob False now j
      else j\<lparr>state := Some Job_GHOST\<rparr>)"

text \<open>
  The first half of \<^verbatim>\<open>processed\<close>: drop the logger field and apply the state machine.
\<close>

definition transition :: "bool \<Rightarrow> bool \<Rightarrow> int \<Rightarrow> job_item \<Rightarrow> job_item" where
  "transition succ optTimeout now j =
     (let j0 = j\<lparr>x_processCount := None\<rparr>
      in if succ then finishJob True now j0
         else if optTimeout then processedTimeout now j0
         else processedError now j0)"

text \<open>
  The second half: the old state is restored, then the three storage operations are
  chained. Each operation either resolves or rejects with an error; \<open>storage\<close> says which.
\<close>

datatype effect =
  UpdateStateIndex "job_state option" "job_state option"
  | SaveRecord job_item
  | Enqueue job_item

record storage =
  setState_fails :: "kerror option"
  save_fails :: "kerror option"
  queue_fails :: "kerror option"

record processed_result =
  effects :: "effect list"
  final_job :: job_item
  rejected :: "kerror option"

text \<open>
  Modelled from the spec: \<^verbatim>\<open>JobItem.setState\<close>, \<^verbatim>\<open>JobItem.save\<close> and the queue model's
  \<^verbatim>\<open>save\<close> (their files are not among the sources). By section 4.1 \<open>updateStateIndex\<close>
  moves the record from its current state to the new one, \<open>save\<close> writes the serialised
  record, and by section 4.3 the Queue Router is asked to enqueue the record. A handler
  later in the chain runs only when the promise before it resolved (the rejection handler
  \<^verbatim>\<open>def.reject\<close> of when.js returns the rejected promise).
\<close>

definition processed ::
  "storage \<Rightarrow> bool \<Rightarrow> bool \<Rightarrow> int \<Rightarrow> job_item \<Rightarrow> processed_result" where
  "processed st succ optTimeout now j =
     (let old = state j;
          j1 = transition succ optTimeout now j;
          newState = state j1;
          j2 = j1\<lparr>state := old\<rparr>;
          j3 = j2\<lparr>state := newState\<rparr>;
          e1 = UpdateStateIndex (state j2) newState
      in case setState_fails st of
           Some e \<Rightarrow> \<lparr>effects = [e1], final_job = j3, rejected = Some e\<rparr>
         | None \<Rightarrow>
             (case save_fails st of
                Some e \<Rightarrow> \<lparr>effects = [e1, SaveRecord j3], final_job = j3, rejected = Some e\<rparr>
              | None \<Rightarrow>
                  \<lparr>effects = [e1, SaveRecord j3, Enqueue j3], final_job = j3,
                   rejected = queue_fails st\<rparr>))"

section \<open>The worker\<close>

definition BUFFER_GRACE :: int where
  "BUFFER_GRACE = 5"

definition THROTTLE_LIMIT :: int where
  "THROTTLE_LIMIT = 5000"

definition THROTTLE_TIMEOUT :: int where
  "THROTTLE_TIMEOUT = 5000"

text \<open>
  The worker's bookkeeping. The in-flight map \<^verbatim>\<open>_processing\<close> is an association list
  keyed by job id; \<open>throttleTimeout\<close> holds the delay of the last throttle timer armed.
  \<open>popsIssued\<close> counts the calls of \<^verbatim>\<open>popModel.fetch\<close> the master loop has made: the
  pops themselves complete later, as calls of \<open>workStart\<close> or of \<open>masterLoop\<close> with
  an error.
\<close>

record worker =
  jobNames :: "string list"
  concurrentJobs :: int
  throttleOn :: bool
  throttleCall :: "int list"
  throttleTimeout :: "int option"
  disposed :: bool
  loopCount :: nat
  throttleBufferLen :: int
  processing :: "(string option \<times> process_item) list"
  popsIssued :: nat

text \<open>The field initialisers of the constructor, then \<^verbatim>\<open>_configure\<close>.\<close>

definition Worker_init :: "string list \<Rightarrow> worker" where
  "Worker_init names =
     \<lparr>jobNames = names, concurrentJobs = 1, throttleOn = False, throttleCall = [],
      throttleTimeout = None, disposed = False, loopCount = 0,
      throttleBufferLen = 1 + BUFFER_GRACE, processing = [], popsIssued = 0\<rparr>"

definition configure :: "jsval \<Rightarrow> worker \<Rightarrow> worker" where
  "configure optConcurrentJobs w =
     (let w1 = (case optConcurrentJobs of JNum n \<Rightarrow> w\<lparr>concurrentJobs := n\<rparr> | _ \<Rightarrow> w)
      in w1\<lparr>throttleBufferLen := concurrentJobs w1 + BUFFER_GRACE\<rparr>)"

text \<open>
  \<^verbatim>\<open>_throttleLoop\<close>. \<open>t_push\<close> and \<open>t_check\<close> are the two readings of \<^verbatim>\<open>Date.now()\<close>.
  \<^verbatim>\<open>splice(0, n)\<close> removes the first \<open>n\<close> entries. On an empty buffer
  \<^verbatim>\<open>_throttleCall[0]\<close> is undefined, the difference is NaN and the comparison is false.
\<close>

definition throttleLoop :: "int \<Rightarrow> int \<Rightarrow> worker \<Rightarrow> worker \<times> bool" where
  "throttleLoop t_push t_check w =
     (if throttleOn w \<or> disposed w then (w, True)
      else
        let calls = throttleCall w @ [t_push];
            callLen = int (length calls);
            calls' = (if callLen > throttleBufferLen w
                      then drop (nat (callLen - throttleBufferLen w)) calls else calls);
            w1 = w\<lparr>throttleCall := calls'\<rparr>;
            notReached = (case calls' of [] \<Rightarrow> False
                          | oldest # rest \<Rightarrow> t_check - oldest > THROTTLE_LIMIT)
        in if notReached then (w1, False)
           else (w1\<lparr>throttleOn := True, throttleTimeout := Some THROTTLE_TIMEOUT\<rparr>, True))"

text \<open>The \<^verbatim>\<open>for\<close> loop of the master loop: one pop per missing in-flight job.\<close>

function launchPops :: "int \<Rightarrow> int \<Rightarrow> nat \<Rightarrow> nat" where
  "launchPops processingCount concurrent n =
     (if processingCount < concurrent
      then launchPops (processingCount + 1) concurrent (Suc n) else n)"
  by pat_completeness auto
termination
  by (relation "measure (\<lambda>(p, c, n). nat (c - p))") auto

declare launchPops.simps [simp del]

definition masterLoop :: "jsval \<Rightarrow> int \<Rightarrow> int \<Rightarrow> worker \<Rightarrow> worker" where
  "masterLoop optErr t_push t_check w =
     (if disposed w then w
      else
        let (w1, stop) = (if truthy optErr then throttleLoop t_push t_check w else (w, False))
        in if stop then w1
           else
             let w2 = w1\<lparr>loopCount := loopCount w1 + 1\<rparr>;
                 processingCount = int (length (processing w2))
             in w2\<lparr>popsIssued := launchPops processingCount (concurrentJobs w2) (popsIssued w2)\<rparr>)"

text \<open>The callback of the throttle timer.\<close>

definition throttleTimerFired :: "worker \<Rightarrow> worker" where
  "throttleTimerFired w = masterLoop JUndefined 0 0 (w\<lparr>throttleOn := False, throttleCall := []\<rparr>)"

text \<open>
  Modelled from the spec: the constructor \<^verbatim>\<open>JobItem.ProcessItem\<close> and the method
  \<^verbatim>\<open>JobItem.addProcessItem\<close> (their file is not among the sources). By section 3.2 a
  Process Item carries the 1-based attempt number and the start time and begins in
  PROCESSING; by sections 3.1 and 3.3 \<open>runs\<close> is the ordered sequence of Process Items,
  one per attempt, so adding one appends it.
\<close>

definition ProcessItem :: "int \<Rightarrow> job_item \<Rightarrow> process_item" where
  "ProcessItem now j =
     \<lparr>count = length (runs j) + 1, startTime = now, processTime = 0,
      pi_state = Process_PROCESSING, errorMessage = JNull, timeout = None\<rparr>"

definition addProcessItem :: "process_item \<Rightarrow> job_item \<Rightarrow> job_item" where
  "addProcessItem p j = j\<lparr>runs := runs j @ [p]\<rparr>"

text \<open>
  The call of \<^verbatim>\<open>jobModel.processed\<close> that a handler makes: the job as it stands at the
  call, the Process Item of the attempt, and the two arguments.
\<close>

record outcome_call =
  oc_job :: job_item
  oc_item :: process_item
  oc_success :: bool
  oc_timedOut :: bool

text \<open>
  The lines of \<^verbatim>\<open>_workFinish\<close> under ``determine success'', then \<^verbatim>\<open>_workFinish\<close> and
  \<^verbatim>\<open>_workTimeout\<close> up to their call of the outcome processor. What they register on the
  processor's promise runs later: the re-entry of the master loop is a call of its own,
  and the optional callback \<^verbatim>\<open>optDone\<close> is left out.
\<close>

definition determineSuccess :: "jsval \<Rightarrow> bool" where
  "determineSuccess optErr =
     (let success = \<not> (isString optErr \<and> truthy optErr)
      in if isBoolean optErr \<and> \<not> truthy optErr then False else success)"

definition workFinish :: "int \<Rightarrow> jsval \<Rightarrow> job_item \<Rightarrow> worker \<Rightarrow> worker \<times> outcome_call option" where
  "workFinish now optErr j w =
     (if disposed w then (w, None)
      else case map_of (processing w) (job_id j) of
             None \<Rightarrow> (masterLoop JUndefined now now w, None)
           | Some processItem \<Rightarrow>
               (let w1 = w\<lparr>processing := AList.delete (job_id j) (processing w)\<rparr>;
                    success = determineSuccess optErr;
                    p1 = processItem\<lparr>processTime := now - startTime processItem\<rparr>;
                    p2 = (if success then p1\<lparr>pi_state := Process_SUCCESS\<rparr>
                          else p1\<lparr>pi_state := Process_FAIL, errorMessage := optErr\<rparr>);
                    j1 = (if success then j else j\<lparr>lastError := optErr\<rparr>);
                    j2 = addProcessItem p2 j1
                in (w1, Some \<lparr>oc_job = j2, oc_item = p2, oc_success = success,
                              oc_timedOut = False\<rparr>)))"

definition workTimeout :: "int \<Rightarrow> job_item \<Rightarrow> worker \<Rightarrow> worker \<times> outcome_call option" where
  "workTimeout now j w =
     (if disposed w then (w, None)
      else case map_of (processing w) (job_id j) of
             None \<Rightarrow> (masterLoop JUndefined now now w, None)
           | Some processItem \<Rightarrow>
               (let w1 = w\<lparr>processing := AList.delete (job_id j) (processing w)\<rparr>;
                    p1 = processItem\<lparr>processTime := now - startTime processItem,
                                     pi_state := Process_GHOST,
                                     errorMessage := JStr ''processing timed out''\<rparr>;
                    j1 = j\<lparr>lastError := JStr ''processing timed out''\<rparr>
                in (w1, Some \<lparr>oc_job = j1, oc_item = p1, oc_success = False,
                              oc_timedOut = True\<rparr>)))"

text \<open>
  \<^verbatim>\<open>_workStart\<close>. What the consumer does while it is being called is a parameter: it
  throws, or calls the completion callback before it returns, or returns with the job
  still running (the callback, or the promise it returned, completes the job later, as a
  call of \<open>workFinish\<close>).
\<close>

datatype consumer_reply = ThrowsSync jsval | DoneSync jsval | Running

record start_result =
  sr_worker :: worker
  sr_call :: "outcome_call option"
  sr_thrown :: "jsval option"

definition workStart :: "int \<Rightarrow> consumer_reply \<Rightarrow> job_item \<Rightarrow> worker \<Rightarrow> start_result" where
  "workStart now reply j w =
     (if disposed w then \<lparr>sr_worker = w, sr_call = None, sr_thrown = None\<rparr>
      else
        let processItem = (ProcessItem now j)\<lparr>timeout := Some (processTimeout j)\<rparr>;
            w1 = w\<lparr>processing := AList.update (job_id j) processItem (processing w)\<rparr>
        in case reply of
             ThrowsSync ex \<Rightarrow>
               (let (w2, c) = workFinish now ex j w1
                in \<lparr>sr_worker = w2, sr_call = c, sr_thrown = Some ex\<rparr>)
           | DoneSync err \<Rightarrow>
               (let (w2, c) = workFinish now err j w1
                in \<lparr>sr_worker = w2, sr_call = c, sr_thrown = None\<rparr>)
           | Running \<Rightarrow> \<lparr>sr_worker = w1, sr_call = None, sr_thrown = None\<rparr>)"

text \<open>
  \<^verbatim>\<open>dispose\<close>: the flag is set and the in-flight map is cleared. (The timers it cancels
  are events that then never arrive.)
\<close>

definition dispose :: "worker \<Rightarrow> worker" where
  "dispose w = w\<lparr>disposed := True, processing := []\<rparr>"

section \<open>Creating a job\<close>

text \<open>The cast \<^verbatim>\<open>id + ''\<close> of the allocated counter value: its decimal rendering.\<close>

fun decimal :: "nat \<Rightarrow> string" where
  "decimal n = (if n < 10 then [char_of (48 + n)] else decimal (n div 10) @ [char_of (48 + n mod 10)])"

definition castToString :: "int \<Rightarrow> string" where
  "castToString i = (if i < 0 then CHR ''-'' # decimal (nat (- i)) else decimal (nat i))"

text \<open>
  \<^verbatim>\<open>JobModel.create\<close>. The reply of \<^verbatim>\<open>incr\<close> is an error message or the new counter value;
  the five steps chained after it each resolve or reject.
\<close>

datatype create_step = Incr | SaveItem | CreateState | CreateTimeIndex | SaveQueue | SaveTimeIndex

record create_io =
  incr_err :: "string option"
  incr_id :: int
  saveItem_fails :: "kerror option"
  createState_fails :: "kerror option"
  createTimeIndex_fails :: "kerror option"
  saveQueue_fails :: "kerror option"
  zadd_err :: "string option"

datatype create_outcome = CreateResolved | CreateRejected kerror | CreateThrows js_exn

record create_result =
  cr_model :: job_model
  cr_steps :: "create_step list"
  cr_outcome :: create_outcome

text \<open>\<^verbatim>\<open>_saveTimeIndex\<close>: one \<^verbatim>\<open>zadd\<close>; a truthy error rejects with a Database error.\<close>

definition saveTimeIndex :: "string option \<Rightarrow> kerror option" where
  "saveTimeIndex err =
     (case (if err = Some [] then None else err) of Some e \<Rightarrow> Some (Database e) | None \<Rightarrow> None)"

text \<open>
  Modelled from the spec: \<^verbatim>\<open>JobItem.save\<close>, \<^verbatim>\<open>JobItem.createState\<close>,
  \<^verbatim>\<open>JobItem.createTimeIndex\<close> and the queue model's \<^verbatim>\<open>save\<close> (their files are not among the
  sources). By section 4.1 the write steps are issued in order and any step's failure
  surfaces a storage error; a step is issued only when the one before it resolved.
\<close>

definition create :: "create_io \<Rightarrow> job_model \<Rightarrow> create_result" where
  "create io m =
     (case (if incr_err io = Some [] then None else incr_err io) of
        Some e \<Rightarrow> \<lparr>cr_model = m, cr_steps = [Incr], cr_outcome = CreateRejected (Database e)\<rparr>
      | None \<Rightarrow>
          (case job m of
             None \<Rightarrow> \<lparr>cr_model = m, cr_steps = [Incr],
                      cr_outcome = CreateThrows (JsTypeError ''Cannot set property id of null'')\<rparr>
           | Some j \<Rightarrow>
               (let m1 = m\<lparr>job := Some (j\<lparr>job_id := Some (castToString (incr_id io))\<rparr>)\<rparr>
                in case saveItem_fails io of
                     Some e \<Rightarrow> \<lparr>cr_model = m1, cr_steps = [Incr, SaveItem],
                                cr_outcome = CreateRejected e\<rparr>
                   | None \<Rightarrow>
                 (case createState_fails io of
                     Some e \<Rightarrow> \<lparr>cr_model = m1, cr_steps = [Incr, SaveItem, CreateState],
                                cr_outcome = CreateRejected e\<rparr>
                   | None \<Rightarrow>
                 (case createTimeIndex_fails io of
                     Some e \<Rightarrow> \<lparr>cr_model = m1,
                                cr_steps = [Incr, SaveItem, CreateState, CreateTimeIndex],
                                cr_outcome = CreateRejected e\<rparr>
                   | None \<Rightarrow>
                 (case saveQueue_fails io of
                     Some e \<Rightarrow> \<lparr>cr_model = m1,
                                cr_steps = [Incr, SaveItem, CreateState, CreateTimeIndex, SaveQueue],
                                cr_outcome = CreateRejected e\<rparr>
                   | None \<Rightarrow>
                 (case saveTimeIndex (zadd_err io) of
                     Some e \<Rightarrow> \<lparr>cr_model = m1,
                                cr_steps = [Incr, SaveItem, CreateState, CreateTimeIndex, SaveQueue,
                                            SaveTimeIndex],
                                cr_outcome = CreateRejected e\<rparr>
                   | None \<Rightarrow> \<lparr>cr_model = m1,
                              cr_steps = [Incr, SaveItem, CreateState, CreateTimeIndex, SaveQueue,
                                          SaveTimeIndex],
                              cr_outcome = CreateResolved\<rparr>)))))))"

text \<open>
  The \<^verbatim>\<open>Create\<close> class. Its deferred is settled at most once: resolving or rejecting a
  settled deferred changes nothing. A rejection carries either a typed error of the
  library or a value that the user's callback threw.

  The user's callback \<open>doneCb\<close> is a parameter: given its arguments it returns, or it
  throws a value.
\<close>

datatype reason = Typed kerror | Raised jsval

datatype deferred = Pending | Resolved job_item | Rejected reason

definition resolveDeferred :: "job_item \<Rightarrow> deferred \<Rightarrow> deferred" where
  "resolveDeferred v d = (if d = Pending then Resolved v else d)"

definition rejectDeferred :: "reason \<Rightarrow> deferred \<Rightarrow> deferred" where
  "rejectDeferred r d = (if d = Pending then Rejected r else d)"

datatype done_args = DoneError reason | DoneCreated job_item

record create_job =
  c_job :: job_item
  c_deferred :: deferred
  c_disposed :: bool

text \<open>
  Modelled from the spec: \<^verbatim>\<open>JobItem.getPublic\<close> (not among the sources); by section 6.2 the
  public job is a read-only view of the record.
\<close>

definition onSuccess :: "(done_args \<Rightarrow> jsval option) \<Rightarrow> create_job \<Rightarrow> create_job \<times> jsval option" where
  "onSuccess doneCb c =
     (if c_disposed c then (c, None)
      else
        let publicJobItem = c_job c
        in case doneCb (DoneCreated publicJobItem) of
             Some ex \<Rightarrow> (c\<lparr>c_deferred := rejectDeferred (Raised ex) (c_deferred c)\<rparr>, None)
           | None \<Rightarrow> (c\<lparr>c_deferred := resolveDeferred publicJobItem (c_deferred c)\<rparr>, None))"

text \<open>
  \<^verbatim>\<open>_onFail\<close>: the \<^verbatim>\<open>catch\<close> clause rethrows what the callback threw; the \<^verbatim>\<open>finally\<close>
  clause rejects with the function's own argument in either case.
\<close>

definition onFail :: "(done_args \<Rightarrow> jsval option) \<Rightarrow> reason \<Rightarrow> create_job \<Rightarrow> create_job \<times> jsval option" where
  "onFail doneCb ex c =
     (if c_disposed c then (c, None)
      else
        let thrown = doneCb (DoneError ex)
        in (c\<lparr>c_deferred := rejectDeferred ex (c_deferred c)\<rparr>, thrown))"

text \<open>
  \<^verbatim>\<open>Create.save\<close>: a job model is built on the instance's own Job Item (the two share
  the object, so the allocated id shows in both) and \<^verbatim>\<open>create\<close> is started; when its
  promise settles, \<open>saveSettled\<close> hands the outcome to one of the two handlers. The
  second component of the result is what was thrown on the way: by the constructor,
  inside the \<^verbatim>\<open>incr\<close> callback, or by the handler.
\<close>

definition saveSettled ::
  "(done_args \<Rightarrow> jsval option) \<Rightarrow> create_result \<Rightarrow> create_job \<Rightarrow> create_job \<times> jsval option" where
  "saveSettled doneCb r c =
     (let c1 = (case job (cr_model r) of Some j \<Rightarrow> c\<lparr>c_job := j\<rparr> | None \<Rightarrow> c)
      in case cr_outcome r of
           CreateResolved \<Rightarrow> onSuccess doneCb c1
         | CreateRejected e \<Rightarrow> onFail doneCb (Typed e) c1
         | CreateThrows e \<Rightarrow> (c1, Some (JObj ''TypeError'')))"

definition save :: "(done_args \<Rightarrow> jsval option) \<Rightarrow> create_io \<Rightarrow> create_job \<Rightarrow> create_job \<times> jsval option" where
  "save doneCb io c =
     (case JobModel (ArgJobItem (c_job c)) of
        Inl e \<Rightarrow> (c, Some (JObj ''TypeError''))
      | Inr m \<Rightarrow> saveSettled doneCb (create io m) c)"

text \<open>
  \<^verbatim>\<open>Create.dispose\<close> sets the flag; it may be called while \<^verbatim>\<open>create\<close> is still running,
  and the handlers then find the instance disposed.
\<close>

definition disposeCreate :: "create_job \<Rightarrow> create_job" where
  "disposeCreate c = c\<lparr>c_disposed := True\<rparr>"

section \<open>Running the worker\<close>

text \<open>
  The runtime calls the worker's entry points one at a time: a pop that delivered a job
  (\<^verbatim>\<open>_workStart\<close>), the completion callback (\<^verbatim>\<open>_workFinish\<close>), the per-job timer
  (\<^verbatim>\<open>_workTimeout\<close>), a re-entry of the master loop, the throttle timer. \<open>run\<close> feeds
  a sequence of such calls to a worker and collects the calls of \<^verbatim>\<open>jobModel.processed\<close>
  they make, in order.
\<close>

datatype event =
  Start int consumer_reply job_item
  | Finish int jsval job_item
  | Timeout int job_item
  | Loop jsval int int
  | ThrottleTimer

fun handle :: "event \<Rightarrow> worker \<Rightarrow> worker \<times> outcome_call option" where
  "handle (Start t r j) w = (let s = workStart t r j w in (sr_worker s, sr_call s))"
| "handle (Finish t e j) w = workFinish t e j w"
| "handle (Timeout t j) w = workTimeout t j w"
| "handle (Loop e a b) w = (masterLoop e a b w, None)"
| "handle ThrottleTimer w = (throttleTimerFired w, None)"

fun run :: "event list \<Rightarrow> worker \<Rightarrow> worker \<times> outcome_call list" where
  "run [] w = (w, [])"
| "run (e # es) w =
     (let (w1, c) = handle e w;
          (w2, cs) = run es w1
      in (w2, (case c of None \<Rightarrow> cs | Some x \<Rightarrow> x # cs)))"

fun starts :: "string option \<Rightarrow> event \<Rightarrow> bool" where
  "starts i (Start t r j) = (job_id j = i)"
| "starts i e = False"

text \<open>
  One job through its attempts. Each attempt is a dispatch by \<^verbatim>\<open>_workStart\<close>, the
  consumer's call of the completion callback with \<open>a_reply\<close>, and the outcome
  processor with every storage operation succeeding; the three clock readings are those
  of the dispatch, of the completion and of the outcome processor.
\<close>

record attempt =
  a_start :: int
  a_reply :: jsval
  a_done :: int
  a_processed :: int

definition storage_ok :: storage where
  "storage_ok = \<lparr>setState_fails = None, save_fails = None, queue_fails = None\<rparr>"

text \<open>
  Modelled from the spec: the Queue Router and the Pop Model (their files are not among
  the sources). By section 4.3 a terminal state enqueues nothing, and a job in RETRY or
  GHOST is queued again; by section 4.4 the pop hands the stored record over with its
  state set to PROCESSING. (The Process Item of the attempt is the one \<^verbatim>\<open>_workStart\<close>
  creates, so that \<open>runs\<close> holds one entry per attempt, as section 3.3 has it.)
\<close>

definition popped :: "job_item \<Rightarrow> job_item" where
  "popped j = j\<lparr>state := Some Job_PROCESSING\<rparr>"

definition terminal :: "job_item \<Rightarrow> bool" where
  "terminal j = (state j = Some Job_SUCCESS \<or> state j = Some Job_FAIL)"

fun process_job :: "attempt list \<Rightarrow> worker \<Rightarrow> job_item \<Rightarrow> nat \<Rightarrow> job_item \<times> nat" where
  "process_job [] w j n = (j, n)"
| "process_job (a # rest) w j n =
     (let s = workStart (a_start a) Running j w
      in case workFinish (a_done a) (a_reply a) j (sr_worker s) of
           (w1, None) \<Rightarrow> (j, n)
         | (w1, Some c) \<Rightarrow>
             (let r = processed storage_ok (oc_success c) (oc_timedOut c) (a_processed a) (oc_job c);
                  w2 = masterLoop JNull (a_processed a) (a_processed a) w1
              in if terminal (final_job r) then (final_job r, Suc n)
                 else process_job rest w2 (popped (final_job r)) (Suc n)))"

text \<open>
  The first scenario of section 8: a job named \<open>mail\<close> with data \<open>hi\<close>,
  \<open>retry = true\<close> and \<open>retryTimes = 3\<close> (the other options at the defaults section 3.1
  gives), freshly popped; and a worker for that job name with the default options.
\<close>

definition scenario_job :: job_item where
  "scenario_job =
     \<lparr>job_id = Some ''1'', name = ''mail'', data = JStr ''hi'', state = Some Job_PROCESSING,
      complete = False, success = None, finishTime = None, totalProcessTime = 0,
      retry = True, retryTimes = 3, retryInterval = 0,
      ghostRetry = True, ghostTimes = 1, ghostInterval = 0,
      processTimeout = 50, runs = [], lastError = JNull, x_processCount = None\<rparr>"

definition scenario_worker :: worker where
  "scenario_worker = configure JUndefined (Worker_init [''mail''])"

text \<open>The Process Item of an earlier attempt that failed.\<close>

definition failed_run :: process_item where
  "failed_run = \<lparr>count = 1, startTime = 100, processTime = 7, pi_state = Process_FAIL,
                 errorMessage = JStr ''oops'', timeout = Some 50\<rparr>"

text \<open>
  A stand-in for \<^verbatim>\<open>JSON.parse\<close> on three inputs: the serialised scenario job (stored while
  the job was NEW), the text \<open>null\<close>, and anything else, which does not parse.
\<close>

definition parse_fixture :: "string \<Rightarrow> parsed" where
  "parse_fixture d =
     (if d = ''{job 1}'' then ParsedObject (scenario_job\<lparr>state := Some Job_NEW\<rparr>)
      else if d = ''null'' then ParsedNull
      else ParseThrows ''SyntaxError: Unexpected token'')"

text \<open>The scenario worker after the scenario job has been dispatched to it at time 100.\<close>

definition inflight_worker :: worker where
  "inflight_worker = sr_worker (workStart 100 Running scenario_job scenario_worker)"

text \<open>
  The scenario worker with six pop failures on record, the oldest at time 1000.
\<close>

definition busy_worker :: worker where
  "busy_worker = scenario_worker\<lparr>throttleCall := [1000, 2000, 3000, 4000, 5000, 6000]\<rparr>"

text \<open>
  An attempt dispatched at time \<open>t\<close> whose consumer reports the error \<open>oops\<close> seven
  milliseconds later.
\<close>

definition error_attempt :: "int \<Rightarrow> attempt" where
  "error_attempt t = \<lparr>a_start = t, a_reply = JStr ''oops'', a_done = t + 7, a_processed = t + 8\<rparr>"

text \<open>
  A \<^verbatim>\<open>Create\<close> instance before \<^verbatim>\<open>save\<close>: it holds the scenario job, with no id allocated
  yet, and a pending deferred. And a Redis whose \<^verbatim>\<open>incr\<close> fails.
\<close>

definition fresh_create :: create_job where
  "fresh_create =
     \<lparr>c_job = scenario_job\<lparr>job_id := None, state := Some Job_NEW\<rparr>, c_deferred = Pending,
      c_disposed = False\<rparr>"

definition redis_down :: create_io where
  "redis_down =
     \<lparr>incr_err = Some ''ECONNREFUSED'', incr_id = 0, saveItem_fails = None,
      createState_fails = None, createTimeIndex_fails = None, saveQueue_fails = None,
      zadd_err = None\<rparr>"

text \<open>
  One job through attempts that all time out. Each attempt is a dispatch by
  \<^verbatim>\<open>_workStart\<close> of the job as popped, the firing of the per-job timer before the consumer
  has answered, and the outcome processor with every storage operation succeeding; the
  three clock readings are those of the dispatch, of the timer and of the outcome
  processor. The result is the job as the outcome processor left it after the last
  attempt made, and the number of attempts made.
\<close>

record timed_out_attempt =
  g_start :: int
  g_fired :: int
  g_processed :: int

fun timeout_job :: "timed_out_attempt list \<Rightarrow> worker \<Rightarrow> job_item \<Rightarrow> nat \<Rightarrow> job_item \<times> nat" where
  "timeout_job [] w j n = (j, n)"
| "timeout_job (a # rest) w j n =
     (let j0 = popped j;
          s = workStart (g_start a) Running j0 w
      in case workTimeout (g_fired a) j0 (sr_worker s) of
           (w1, None) \<Rightarrow> (j, n)
         | (w1, Some c) \<Rightarrow>
             (let r = processed storage_ok (oc_success c) (oc_timedOut c) (g_processed a) (oc_job c);
                  w2 = masterLoop JNull (g_processed a) (g_processed a) w1
              in if terminal (final_job r) \<or> rest = [] then (final_job r, Suc n)
                 else timeout_job rest w2 (final_job r) (Suc n)))"

text \<open>An attempt dispatched at time \<open>t\<close> whose timer fires after the 50 milliseconds allowed.\<close>

definition ghost_attempt :: "int \<Rightarrow> timed_out_attempt" where
  "ghost_attempt t = \<lparr>g_start = t, g_fired = t + 50, g_processed = t + 51\<rparr>"

text \<open>
  The scenario job as it is popped again after its first attempt, dispatched at time 100,
  has timed out at time 150 and the outcome processor has run at time 151.
\<close>

definition redelivered_job :: job_item where
  "redelivered_job = popped (fst (timeout_job [ghost_attempt 100] scenario_worker scenario_job 0))"

section \<open>Properties of the outcome processor\<close>

lemma foldl_processTime:
  "foldl (\<lambda>total p. total + processTime p) a rs = a + sum_list (map processTime rs)"
  by (induction rs arbitrary: a) simp_all

lemma ghostCount_foldl:
  "foldl (\<lambda>c p. if Process_GHOST = pi_state p then c + 1 else c) a rs
     = a + length (filter (\<lambda>p. pi_state p = Process_GHOST) rs)"
  by (induction rs arbitrary: a) auto

lemma ghostCount_filter: "ghostCount rs = length (filter (\<lambda>p. pi_state p = Process_GHOST) rs)"
  by (simp add: ghostCount_def ghostCount_foldl)

lemma final_job_processed:
  "final_job (processed st succ tmo now j) = transition succ tmo now j"
  by (simp add: processed_def Let_def split: option.splits)

lemma transition_success:
  "transition True tmo now j = finishJob True now (j\<lparr>x_processCount := None\<rparr>)"
  by (simp add: transition_def)

lemma terminal_transition:
  "state (transition succ tmo now j) = Some Job_SUCCESS
     \<or> state (transition succ tmo now j) = Some Job_FAIL
   \<Longrightarrow> complete (transition succ tmo now j) \<and> finishTime (transition succ tmo now j) = Some now"
  by (auto simp: transition_def processedTimeout_def processedError_def finishJob_def Let_def
      split: if_splits)

lemma runs_transition: "runs (transition succ tmo now j) = runs j"
  by (simp add: transition_def processedTimeout_def processedError_def finishJob_def Let_def)

text \<open>
  Claim C4. When the attempt succeeded, the outcome processor leaves the job in SUCCESS
  with \<open>complete\<close> set, \<open>finishTime\<close> the clock reading, and \<open>totalProcessTime\<close> the sum
  of \<open>processTime\<close> over all of \<open>runs\<close> (which it does not change). And whatever the
  outcome, a job that leaves the outcome processor in SUCCESS or FAIL is complete and has
  a finish time.
\<close>

theorem processed_success_terminal:
  "state (final_job (processed st True tmo now j)) = Some Job_SUCCESS
   \<and> complete (final_job (processed st True tmo now j))
   \<and> finishTime (final_job (processed st True tmo now j)) = Some now
   \<and> runs (final_job (processed st True tmo now j)) = runs j
   \<and> totalProcessTime (final_job (processed st True tmo now j))
       = sum_list (map processTime (runs j))
   \<and> (\<forall>succ optTimeout.
        state (final_job (processed st succ optTimeout now j)) \<in> {Some Job_SUCCESS, Some Job_FAIL}
        \<longrightarrow> complete (final_job (processed st succ optTimeout now j))
            \<and> finishTime (final_job (processed st succ optTimeout now j)) \<noteq> None)"
  using terminal_transition
  by (auto simp: final_job_processed transition_success finishJob_def foldl_processTime)

theorem processed_success_terminal_witness:
  "state (final_job (processed storage_ok False False 1000
                       (scenario_job\<lparr>retry := False, runs := [failed_run]\<rparr>)))
     \<in> {Some Job_SUCCESS, Some Job_FAIL}
   \<and> complete (final_job (processed storage_ok False False 1000
                             (scenario_job\<lparr>retry := False, runs := [failed_run]\<rparr>)))
   \<and> finishTime (final_job (processed storage_ok False False 1000
                               (scenario_job\<lparr>retry := False, runs := [failed_run]\<rparr>))) \<noteq> None
   \<and> totalProcessTime (final_job (processed storage_ok True False 1000
                                     (scenario_job\<lparr>retry := False, runs := [failed_run]\<rparr>))) = 7"
proof -
  let ?j = "scenario_job\<lparr>retry := False, runs := [failed_run]\<rparr>"
  have h: "state (final_job (processed storage_ok False False 1000 ?j))
             \<in> {Some Job_SUCCESS, Some Job_FAIL}"
    by (simp add: final_job_processed transition_def processedError_def finishJob_def
          scenario_job_def)
  have t: "sum_list (map processTime (runs ?j)) = 7"
    by (simp add: failed_run_def)
  note inst = processed_success_terminal [of storage_ok False 1000 ?j]
  from inst h have "complete (final_job (processed storage_ok False False 1000 ?j))
      \<and> finishTime (final_job (processed storage_ok False False 1000 ?j)) \<noteq> None"
    by blast
  moreover from inst t
  have "totalProcessTime (final_job (processed storage_ok True False 1000 ?j)) = 7"
    by simp
  ultimately show ?thesis using h by simp
qed

text \<open>
  The timeout branch of the outcome processor, on the \<open>runs\<close> it is handed: FAIL if
  \<open>ghostRetry\<close> is off; otherwise FAIL if the entries of \<open>runs\<close> in state GHOST are
  strictly more than \<open>ghostTimes\<close>, and GHOST if not.
\<close>

lemma processedTimeout_cases:
  "state (final_job (processed st False True now j)) =
     (if \<not> ghostRetry j then Some Job_FAIL
      else if int (length (filter (\<lambda>p. pi_state p = Process_GHOST) (runs j))) > ghostTimes j
           then Some Job_FAIL
      else Some Job_GHOST)
   \<and> (state (final_job (processed st False True now j)) = Some Job_FAIL
        \<longrightarrow> complete (final_job (processed st False True now j))
            \<and> success (final_job (processed st False True now j)) = Some False)
   \<and> (ghostRetry j \<longrightarrow>
        (state (final_job (processed st False True now j)) = Some Job_FAIL)
          = (ghostTimes j + 1 \<le> int (length (filter (\<lambda>p. pi_state p = Process_GHOST) (runs j)))))"
  by (simp add: final_job_processed transition_def processedTimeout_def finishJob_def
        ghostCount_filter)

section \<open>Properties of the job model\<close>

lemma fetch_by_id:
  "JobModel (ArgString i) = Inr m \<Longrightarrow> fetch NS m = FetchHmget (NS @ '':job:'' @ i) [''itemData'', ''state'']"
  by (cases "i = []") (auto simp: fetch_def)

lemma fetchResponse_absent:
  "fst response = None \<Longrightarrow> snd (fetchResponse JSON_parse m None response) = Reject (NoRecord (jobId m))"
  by (simp add: fetchResponse_def)

lemma fetchResponse_malformed:
  "fst response = Some itemData \<Longrightarrow> JSON_parse itemData = ParseThrows ex
   \<Longrightarrow> snd (fetchResponse JSON_parse m None response) = Reject (JSON ex)"
  by (simp add: fetchResponse_def)

lemma fetchResponse_object:
  "fst response = Some itemData \<Longrightarrow> JSON_parse itemData = ParsedObject item
   \<Longrightarrow> snd (fetchResponse JSON_parse m None response)
       = (if jobId m \<noteq> job_id item then Reject (NoRecord (jobId m))
          else Resolve (item\<lparr>state := snd response\<rparr>))"
  by (simp add: fetchResponse_def Let_def)

text \<open>
  Claim C5. A model built from an id fetches by reading the fields \<open>itemData\<close> and
  \<open>state\<close> of the job's key. When Redis reports no error: an absent \<open>itemData\<close> is
  rejected as NoRecord (NotFound); an \<open>itemData\<close> that does not parse is rejected as a
  JSON error (Corrupt); a parsed record whose id is not the requested one is rejected as
  NoRecord; otherwise the parsed record is returned with its \<open>state\<close> replaced by the
  separately stored one, whatever state the record itself carried.
\<close>

theorem fetch_reads_pair_and_state_wins:
  "(JobModel (ArgString i) = Inr m \<longrightarrow> fetch NS m = FetchHmget (NS @ '':job:'' @ i) [''itemData'', ''state''])
   \<and> (err = None \<and> fst response = None
        \<longrightarrow> snd (fetchResponse JSON_parse m err response) = Reject (NoRecord (jobId m)))
   \<and> (err = None \<and> fst response = Some itemData \<and> JSON_parse itemData = ParseThrows ex
        \<longrightarrow> snd (fetchResponse JSON_parse m err response) = Reject (JSON ex))
   \<and> (err = None \<and> fst response = Some itemData \<and> JSON_parse itemData = ParsedObject item
        \<and> job_id item \<noteq> jobId m
        \<longrightarrow> snd (fetchResponse JSON_parse m err response) = Reject (NoRecord (jobId m)))
   \<and> (err = None \<and> fst response = Some itemData \<and> JSON_parse itemData = ParsedObject item
        \<and> job_id item = jobId m
        \<longrightarrow> snd (fetchResponse JSON_parse m err response) = Resolve (item\<lparr>state := snd response\<rparr>)
            \<and> state (item\<lparr>state := snd response\<rparr>) = snd response)"
  by (simp add: fetch_by_id fetchResponse_absent fetchResponse_malformed fetchResponse_object)

theorem fetch_reads_pair_and_state_wins_witness:
  "JobModel (ArgString ''1'') = Inr \<lparr>job = None, jobId = Some ''1'', hasJobItem = False\<rparr>
   \<and> fetch ''kickq'' \<lparr>job = None, jobId = Some ''1'', hasJobItem = False\<rparr>
       = FetchHmget ''kickq:job:1'' [''itemData'', ''state'']
   \<and> snd (fetchResponse parse_fixture \<lparr>job = None, jobId = Some ''1'', hasJobItem = False\<rparr> None
            (None, None)) = Reject (NoRecord (Some ''1''))
   \<and> snd (fetchResponse parse_fixture \<lparr>job = None, jobId = Some ''1'', hasJobItem = False\<rparr> None
            (Some ''{job'', Some Job_RETRY)) = Reject (JSON ''SyntaxError: Unexpected token'')
   \<and> snd (fetchResponse parse_fixture \<lparr>job = None, jobId = Some ''2'', hasJobItem = False\<rparr> None
            (Some ''{job 1}'', Some Job_RETRY)) = Reject (NoRecord (Some ''2''))
   \<and> snd (fetchResponse parse_fixture \<lparr>job = None, jobId = Some ''1'', hasJobItem = False\<rparr> None
            (Some ''{job 1}'', Some Job_RETRY)) = Resolve (scenario_job\<lparr>state := Some Job_RETRY\<rparr>)"
proof -
  let ?m = "\<lparr>job = None, jobId = Some ''1'', hasJobItem = False\<rparr>"
  let ?m2 = "\<lparr>job = None, jobId = Some ''2'', hasJobItem = False\<rparr>"
  let ?item = "scenario_job\<lparr>state := Some Job_NEW\<rparr>"
  have c: "JobModel (ArgString ''1'') = Inr ?m" by simp
  have p1: "parse_fixture ''{job'' = ParseThrows ''SyntaxError: Unexpected token''"
    by (simp add: parse_fixture_def)
  have p2: "parse_fixture ''{job 1}'' = ParsedObject ?item"
    by (simp add: parse_fixture_def)
  have i1: "job_id ?item = jobId ?m" by (simp add: scenario_job_def)
  have i2: "job_id ?item \<noteq> jobId ?m2" by (simp add: scenario_job_def)
  have "fetch ''kickq'' ?m = FetchHmget ''kickq:job:1'' [''itemData'', ''state'']"
    using fetch_reads_pair_and_state_wins [of "''1''" ?m "''kickq''"] c by simp
  moreover have "snd (fetchResponse parse_fixture ?m None (None, None)) = Reject (NoRecord (Some ''1''))"
    using fetch_reads_pair_and_state_wins [of _ ?m _ None "(None, None)" parse_fixture] by simp
  moreover have "snd (fetchResponse parse_fixture ?m None (Some ''{job'', Some Job_RETRY))
      = Reject (JSON ''SyntaxError: Unexpected token'')"
    using fetch_reads_pair_and_state_wins [of _ ?m _ None "(Some ''{job'', Some Job_RETRY)" parse_fixture "''{job''"] p1
    by simp
  moreover have "snd (fetchResponse parse_fixture ?m2 None (Some ''{job 1}'', Some Job_RETRY))
      = Reject (NoRecord (Some ''2''))"
    using fetch_reads_pair_and_state_wins [of _ ?m2 _ None "(Some ''{job 1}'', Some Job_RETRY)" parse_fixture "''{job 1}''" _ ?item] p2 i2
    by simp
  moreover have "snd (fetchResponse parse_fixture ?m None (Some ''{job 1}'', Some Job_RETRY))
      = Resolve (scenario_job\<lparr>state := Some Job_RETRY\<rparr>)"
    using fetch_reads_pair_and_state_wins [of _ ?m _ None "(Some ''{job 1}'', Some Job_RETRY)" parse_fixture "''{job 1}''" _ ?item] p2 i1
    by simp
  ultimately show ?thesis using c by simp
qed

text \<open>
  Claim C10. \<open>fetch\<close> on a model that holds a Job Item (in particular one constructed
  from a Job Item), or on one whose job id is not a string, throws an Error and issues no
  \<^verbatim>\<open>hmget\<close>; the constructor throws a TypeError on the empty string and on anything that
  is neither a string nor a Job Item, and accepts a non-empty string or a Job Item.
\<close>

theorem fetch_and_constructor_throw:
  "(hasJobItem m \<longrightarrow> fetch NS m = FetchThrows (JsError ''Instance already contains a job item''))
   \<and> (JobModel (ArgJobItem j) = Inr m \<longrightarrow>
        fetch NS m = FetchThrows (JsError ''Instance already contains a job item''))
   \<and> (\<not> hasJobItem m \<and> jobId m = None \<longrightarrow>
        fetch NS m = FetchThrows (JsError ''No job id has been defined''))
   \<and> (jobId m = None \<longrightarrow> (\<exists>e. fetch NS m = FetchThrows (JsError e)))
   \<and> JobModel (ArgString []) = Inl (JsTypeError ''Argument not string or Kickq.JobItem'')
   \<and> JobModel (ArgOther v) = Inl (JsTypeError ''Argument not string or Kickq.JobItem'')
   \<and> (s \<noteq> [] \<longrightarrow> JobModel (ArgString s) = Inr \<lparr>job = None, jobId = Some s, hasJobItem = False\<rparr>)
   \<and> JobModel (ArgJobItem j) = Inr \<lparr>job = Some j, jobId = job_id j, hasJobItem = True\<rparr>"
  by (auto simp: fetch_def)

theorem fetch_and_constructor_throw_witness:
  "JobModel (ArgJobItem scenario_job)
     = Inr \<lparr>job = Some scenario_job, jobId = job_id scenario_job, hasJobItem = True\<rparr>
   \<and> fetch ''kickq'' \<lparr>job = Some scenario_job, jobId = job_id scenario_job, hasJobItem = True\<rparr>
       = FetchThrows (JsError ''Instance already contains a job item'')
   \<and> fetch ''kickq'' \<lparr>job = None, jobId = None, hasJobItem = False\<rparr>
       = FetchThrows (JsError ''No job id has been defined'')
   \<and> JobModel (ArgString ''7'') = Inr \<lparr>job = None, jobId = Some ''7'', hasJobItem = False\<rparr>"
proof -
  let ?m = "\<lparr>job = Some scenario_job, jobId = job_id scenario_job, hasJobItem = True\<rparr>"
  let ?n = "\<lparr>job = None, jobId = None, hasJobItem = False\<rparr>"
  have a: "JobModel (ArgJobItem scenario_job) = Inr ?m"
    using fetch_and_constructor_throw [of ?m "''kickq''" scenario_job] by simp
  have b: "fetch ''kickq'' ?m = FetchThrows (JsError ''Instance already contains a job item'')"
    using fetch_and_constructor_throw [of ?m "''kickq''" scenario_job] by simp
  have c: "fetch ''kickq'' ?n = FetchThrows (JsError ''No job id has been defined'')"
    using fetch_and_constructor_throw [of ?n "''kickq''" scenario_job] by simp
  have d: "JobModel (ArgString ''7'') = Inr \<lparr>job = None, jobId = Some ''7'', hasJobItem = False\<rparr>"
    using fetch_and_constructor_throw [of ?n "''kickq''" scenario_job _ "''7''"] by simp
  from a b c d show ?thesis by simp
qed

section \<open>Order of the outcome persistence\<close>

lemma effects_processed:
  "effects (processed st succ tmo now j) =
     take (if setState_fails st \<noteq> None then 1 else if save_fails st \<noteq> None then 2 else 3)
       [UpdateStateIndex (state j) (state (transition succ tmo now j)),
        SaveRecord (transition succ tmo now j),
        Enqueue (transition succ tmo now j)]"
  by (auto simp: processed_def Let_def split: option.splits)

lemma workFinish_appends:
  "workFinish t err j w = (w', Some c) \<Longrightarrow> runs (oc_job c) = runs j @ [oc_item c]"
  by (auto simp: workFinish_def addProcessItem_def Let_def split: if_splits option.splits)

lemma workFinish_args:
  "workFinish t err j w = (w', Some c) \<Longrightarrow> oc_success c = determineSuccess err \<and> \<not> oc_timedOut c"
  by (auto simp: workFinish_def addProcessItem_def Let_def split: if_splits option.splits)

lemma inflight_worker_eq:
  "inflight_worker =
     \<lparr>jobNames = [''mail''], concurrentJobs = 1, throttleOn = False, throttleCall = [],
      throttleTimeout = None, disposed = False, loopCount = 0, throttleBufferLen = 6,
      processing = [(Some ''1'', \<lparr>count = 1, startTime = 100, processTime = 0,
                                 pi_state = Process_PROCESSING, errorMessage = JNull,
                                 timeout = Some 50\<rparr>)],
      popsIssued = 0\<rparr>"
  by (simp add: inflight_worker_def workStart_def scenario_worker_def scenario_job_def
        configure_def Worker_init_def BUFFER_GRACE_def ProcessItem_def Let_def)

lemma scenario_finish_oops:
  "workFinish 107 (JStr ''oops'') scenario_job inflight_worker =
     (inflight_worker\<lparr>processing := []\<rparr>,
      Some \<lparr>oc_job = scenario_job\<lparr>lastError := JStr ''oops'', runs := [failed_run]\<rparr>,
            oc_item = failed_run, oc_success = False, oc_timedOut = False\<rparr>)"
  by (simp add: inflight_worker_eq workFinish_def scenario_job_def determineSuccess_def
        addProcessItem_def failed_run_def Let_def)

text \<open>
  The storage operations that the outcome processor issues are an initial part of the
  sequence: update of the state index from the state the job came in with to the new
  state, save of the record, enqueue of the record; all three when the first two succeed.
  The record saved has the \<open>runs\<close> the processor was handed.
\<close>

lemma processed_effects_prefix:
  "(\<exists>k. 1 \<le> k \<and> k \<le> 3 \<and>
        effects (processed st succ tmo now j) =
          take k [UpdateStateIndex (state j) (state (final_job (processed st succ tmo now j))),
                  SaveRecord (final_job (processed st succ tmo now j)),
                  Enqueue (final_job (processed st succ tmo now j))])
   \<and> (setState_fails st = None \<and> save_fails st = None \<longrightarrow>
        effects (processed st succ tmo now j) =
          [UpdateStateIndex (state j) (state (final_job (processed st succ tmo now j))),
           SaveRecord (final_job (processed st succ tmo now j)),
           Enqueue (final_job (processed st succ tmo now j))])
   \<and> runs (final_job (processed st succ tmo now j)) = runs j
   \<and> (workFinish t err j0 w = (w', Some c) \<and> j = oc_job c \<longrightarrow>
        runs (final_job (processed st succ tmo now j)) = runs j0 @ [oc_item c])"
proof -
  let ?k = "if setState_fails st \<noteq> None then 1 else if save_fails st \<noteq> None then 2 else (3::nat)"
  have "1 \<le> ?k \<and> ?k \<le> 3" by simp
  then have a: "\<exists>k. 1 \<le> k \<and> k \<le> 3 \<and>
        effects (processed st succ tmo now j) =
          take k [UpdateStateIndex (state j) (state (final_job (processed st succ tmo now j))),
                  SaveRecord (final_job (processed st succ tmo now j)),
                  Enqueue (final_job (processed st succ tmo now j))]"
    using effects_processed [of st succ tmo now j] unfolding final_job_processed by blast
  have b: "setState_fails st = None \<and> save_fails st = None \<longrightarrow>
        effects (processed st succ tmo now j) =
          [UpdateStateIndex (state j) (state (final_job (processed st succ tmo now j))),
           SaveRecord (final_job (processed st succ tmo now j)),
           Enqueue (final_job (processed st succ tmo now j))]"
    by (simp add: effects_processed final_job_processed)
  have c: "runs (final_job (processed st succ tmo now j)) = runs j"
    by (simp add: final_job_processed runs_transition)
  have d: "workFinish t err j0 w = (w', Some c) \<and> j = oc_job c \<longrightarrow>
        runs (final_job (processed st succ tmo now j)) = runs j0 @ [oc_item c]"
    using c workFinish_appends by auto
  from a b c d show ?thesis by blast
qed

section \<open>Properties of the worker\<close>

lemma determineSuccess_iff:
  "determineSuccess e = (\<not> ((\<exists>s. e = JStr s \<and> s \<noteq> []) \<or> e = JBool False))"
  by (cases e) (auto simp: determineSuccess_def Let_def)

lemma scenario_worker_eq:
  "scenario_worker =
     \<lparr>jobNames = [''mail''], concurrentJobs = 1, throttleOn = False, throttleCall = [],
      throttleTimeout = None, disposed = False, loopCount = 0, throttleBufferLen = 6,
      processing = [], popsIssued = 0\<rparr>"
  by (simp add: scenario_worker_def configure_def Worker_init_def BUFFER_GRACE_def Let_def)

text \<open>
  Claim C2. The classification at the value a consumer most often reports: an Error
  object, truthy and not a boolean, as handed to the completion callback or thrown out
  of the consumer and passed on by \<^verbatim>\<open>_workStart\<close>. The attempt is classified a success and
  its Process Item marked SUCCESS; so is the attempt that reports the number 42.
\<close>

theorem thrown_error_object_counts_as_success:
  "truthy (JObj ''Error: boom'') \<and> \<not> isBoolean (JObj ''Error: boom'')
   \<and> determineSuccess (JObj ''Error: boom'')
   \<and> sr_thrown (workStart 100 (ThrowsSync (JObj ''Error: boom'')) scenario_job scenario_worker)
       = Some (JObj ''Error: boom'')
   \<and> map_option oc_success
        (sr_call (workStart 100 (ThrowsSync (JObj ''Error: boom'')) scenario_job scenario_worker))
       = Some True
   \<and> map_option (\<lambda>c. pi_state (oc_item c))
        (sr_call (workStart 100 (ThrowsSync (JObj ''Error: boom'')) scenario_job scenario_worker))
       = Some Process_SUCCESS
   \<and> map_option oc_success
        (snd (workFinish 107 (JObj ''Error: boom'') scenario_job inflight_worker)) = Some True
   \<and> map_option oc_success
        (snd (workFinish 107 (JNum 42) scenario_job inflight_worker)) = Some True"
  by (simp add: determineSuccess_def workStart_def workFinish_def scenario_worker_eq
        inflight_worker_eq ProcessItem_def addProcessItem_def scenario_job_def Let_def)

section \<open>The throttle\<close>

text \<open>The loop launches as many pops as jobs are missing, none when there are enough.\<close>

lemma launchPops_eq: "launchPops p c n = n + nat (c - p)"
proof (induction p c n rule: launchPops.induct)
  case (1 p c n)
  show ?case
  proof (cases "p < c")
    case True
    with "1" show ?thesis by (subst launchPops.simps) (simp add: nat_diff_distrib)
  next
    case False
    then show ?thesis by (subst launchPops.simps) simp
  qed
qed

lemma masterLoop_plain:
  "\<not> truthy optErr \<Longrightarrow>
   masterLoop optErr tp tc w =
     (if disposed w then w
      else w\<lparr>loopCount := loopCount w + 1,
             popsIssued := popsIssued w + nat (concurrentJobs w - int (length (processing w)))\<rparr>)"
  by (simp add: masterLoop_def Let_def launchPops_eq)

lemma masterLoop_error:
  "truthy optErr \<Longrightarrow> \<not> disposed w \<Longrightarrow>
   masterLoop optErr tp tc w =
     (if snd (throttleLoop tp tc w) then fst (throttleLoop tp tc w)
      else (fst (throttleLoop tp tc w))
             \<lparr>loopCount := loopCount (fst (throttleLoop tp tc w)) + 1,
              popsIssued := popsIssued (fst (throttleLoop tp tc w))
                 + nat (concurrentJobs (fst (throttleLoop tp tc w))
                        - int (length (processing (fst (throttleLoop tp tc w)))))\<rparr>)"
  by (simp add: masterLoop_def Let_def launchPops_eq split: prod.splits)

lemma throttleLoop_engaged: "throttleOn w \<Longrightarrow> throttleLoop tp tc w = (w, True)"
  by (simp add: throttleLoop_def)

lemma trimmed_nonempty:
  "0 < b \<Longrightarrow> (if int (length (cs @ [tp])) > b then drop (nat (int (length (cs @ [tp])) - b)) (cs @ [tp]) else cs @ [tp])
      = drop (length (cs @ [tp]) - nat b) (cs @ [tp])
    \<and> drop (length (cs @ [tp]) - nat b) (cs @ [tp]) \<noteq> []
    \<and> length (drop (length (cs @ [tp]) - nat b) (cs @ [tp])) \<le> nat b
    \<and> last (drop (length (cs @ [tp]) - nat b) (cs @ [tp])) = tp"
proof -
  assume b: "0 < b"
  let ?cs = "cs @ [tp]"
  have n: "nat (int (length ?cs) - b) = length ?cs - nat b" using b by linarith
  have lt: "length ?cs - nat b < length ?cs" using b by simp
  have e: "(if int (length ?cs) > b then drop (nat (int (length ?cs) - b)) ?cs else ?cs)
      = drop (length ?cs - nat b) ?cs"
  proof (cases "int (length ?cs) > b")
    case True then show ?thesis using n by simp
  next
    case False
    then have "length ?cs - nat b = 0" using b by linarith
    with False show ?thesis by simp
  qed
  have ne: "drop (length ?cs - nat b) ?cs \<noteq> []" using lt by simp
  have le: "length (drop (length ?cs - nat b) ?cs) \<le> nat b" by simp
  have la: "last (drop (length ?cs - nat b) ?cs) = tp" using lt by (simp del: drop_append)
  from e ne le la show ?thesis by blast
qed

lemma throttleLoop_records:
  assumes "\<not> throttleOn w" "\<not> disposed w" "0 < throttleBufferLen w"
  shows "throttleCall (fst (throttleLoop tp tc w))
           = drop (length (throttleCall w @ [tp]) - nat (throttleBufferLen w)) (throttleCall w @ [tp])"
    and "snd (throttleLoop tp tc w) = (tc - hd (throttleCall (fst (throttleLoop tp tc w))) \<le> THROTTLE_LIMIT)"
    and "throttleOn (fst (throttleLoop tp tc w)) = snd (throttleLoop tp tc w)"
    and "snd (throttleLoop tp tc w) \<Longrightarrow> throttleTimeout (fst (throttleLoop tp tc w)) = Some THROTTLE_TIMEOUT"
    and "loopCount (fst (throttleLoop tp tc w)) = loopCount w"
    and "popsIssued (fst (throttleLoop tp tc w)) = popsIssued w"
    and "concurrentJobs (fst (throttleLoop tp tc w)) = concurrentJobs w"
    and "processing (fst (throttleLoop tp tc w)) = processing w"
proof -
  note t = trimmed_nonempty [OF assms(3), of "throttleCall w" tp]
  let ?d = "drop (length (throttleCall w @ [tp]) - nat (throttleBufferLen w)) (throttleCall w @ [tp])"
  obtain x xs where d: "?d = x # xs" using t by (cases ?d) auto
  have tl: "throttleLoop tp tc w =
      (if tc - x > THROTTLE_LIMIT then (w\<lparr>throttleCall := ?d\<rparr>, False)
       else (w\<lparr>throttleCall := ?d, throttleOn := True, throttleTimeout := Some THROTTLE_TIMEOUT\<rparr>, True))"
    using assms(1,2) t d unfolding throttleLoop_def Let_def by simp
  show "throttleCall (fst (throttleLoop tp tc w)) = ?d" by (simp add: tl)
  then show "snd (throttleLoop tp tc w) = (tc - hd (throttleCall (fst (throttleLoop tp tc w))) \<le> THROTTLE_LIMIT)"
    using d by (auto simp: tl)
  show "throttleOn (fst (throttleLoop tp tc w)) = snd (throttleLoop tp tc w)"
    using assms(1) by (simp add: tl)
  show "snd (throttleLoop tp tc w) \<Longrightarrow> throttleTimeout (fst (throttleLoop tp tc w)) = Some THROTTLE_TIMEOUT"
    by (simp add: tl split: if_splits)
  show "loopCount (fst (throttleLoop tp tc w)) = loopCount w" by (simp add: tl)
  show "popsIssued (fst (throttleLoop tp tc w)) = popsIssued w" by (simp add: tl)
  show "concurrentJobs (fst (throttleLoop tp tc w)) = concurrentJobs w" by (simp add: tl)
  show "processing (fst (throttleLoop tp tc w)) = processing w" by (simp add: tl)
qed


text \<open>
  The oldest entry kept may be the one just pushed: on an empty buffer the first error
  engages the throttle, unless the clock moved by more than the limit between the two
  readings.
\<close>

lemma first_error_engages:
  assumes "\<not> throttleOn w" "\<not> disposed w" "0 < throttleBufferLen w" "throttleCall w = []"
    and "tc - tp \<le> THROTTLE_LIMIT"
  shows "throttleOn (fst (throttleLoop tp tc w))"
proof -
  have "nat (throttleBufferLen w) \<ge> 1" using assms(3) by simp
  then have "drop (length (throttleCall w @ [tp]) - nat (throttleBufferLen w)) (throttleCall w @ [tp]) = [tp]"
    using assms(4) by simp
  with throttleLoop_records(1-3) [OF assms(1-3), of tp tc] assms(5) show ?thesis by simp
qed

lemma throttleTimerFired_eq:
  "\<not> disposed w \<Longrightarrow>
   throttleTimerFired w =
     w\<lparr>throttleOn := False, throttleCall := [], loopCount := loopCount w + 1,
       popsIssued := popsIssued w + nat (concurrentJobs w - int (length (processing w)))\<rparr>"
  by (simp add: throttleTimerFired_def masterLoop_plain)

text \<open>
  Claim C9. The master loop touches the throttle only when it is entered with an error.
  On a live, unthrottled worker whose buffer length is \<open>concurrentJobs + BUFFER_GRACE\<close>
  (and positive), an entry with an error appends the clock reading to the buffer and
  keeps the last \<open>concurrentJobs + 5\<close> entries; the throttle engages exactly when the
  second clock reading is within 5000 of the oldest entry kept; engaging arms a timer of
  5000 and launches no pop, not engaging lets the loop run. While the throttle is on, an
  entry with an error changes nothing. When the timer fires the throttle is off, the
  buffer empty, and the loop has run.
\<close>

theorem throttle_on_error_path:
  "(\<not> truthy optErr \<longrightarrow>
      throttleOn (masterLoop optErr tp tc w) = throttleOn w
      \<and> throttleCall (masterLoop optErr tp tc w) = throttleCall w
      \<and> throttleTimeout (masterLoop optErr tp tc w) = throttleTimeout w)
   \<and> (truthy optErr \<and> \<not> disposed w \<and> \<not> throttleOn w
       \<and> throttleBufferLen w = concurrentJobs w + BUFFER_GRACE \<and> 0 < throttleBufferLen w \<longrightarrow>
        throttleCall (masterLoop optErr tp tc w)
          = drop (length (throttleCall w @ [tp]) - nat (concurrentJobs w + 5)) (throttleCall w @ [tp])
        \<and> length (throttleCall (masterLoop optErr tp tc w)) \<le> nat (concurrentJobs w + 5)
        \<and> throttleCall (masterLoop optErr tp tc w) \<noteq> []
        \<and> last (throttleCall (masterLoop optErr tp tc w)) = tp
        \<and> throttleOn (masterLoop optErr tp tc w)
            = (tc - hd (throttleCall (masterLoop optErr tp tc w)) \<le> 5000)
        \<and> (throttleOn (masterLoop optErr tp tc w) \<longrightarrow>
              throttleTimeout (masterLoop optErr tp tc w) = Some 5000
              \<and> loopCount (masterLoop optErr tp tc w) = loopCount w
              \<and> popsIssued (masterLoop optErr tp tc w) = popsIssued w)
        \<and> (\<not> throttleOn (masterLoop optErr tp tc w) \<longrightarrow>
              loopCount (masterLoop optErr tp tc w) = loopCount w + 1
              \<and> popsIssued (masterLoop optErr tp tc w)
                  = popsIssued w + nat (concurrentJobs w - int (length (processing w)))))
   \<and> (truthy optErr \<and> throttleOn w \<longrightarrow> masterLoop optErr tp tc w = w)
   \<and> (\<not> disposed w \<longrightarrow>
        \<not> throttleOn (throttleTimerFired w)
        \<and> throttleCall (throttleTimerFired w) = []
        \<and> loopCount (throttleTimerFired w) = loopCount w + 1
        \<and> popsIssued (throttleTimerFired w)
            = popsIssued w + nat (concurrentJobs w - int (length (processing w))))
   \<and> BUFFER_GRACE = 5 \<and> THROTTLE_LIMIT = 5000 \<and> THROTTLE_TIMEOUT = 5000"
proof -
  have a: "\<not> truthy optErr \<longrightarrow>
      throttleOn (masterLoop optErr tp tc w) = throttleOn w
      \<and> throttleCall (masterLoop optErr tp tc w) = throttleCall w
      \<and> throttleTimeout (masterLoop optErr tp tc w) = throttleTimeout w"
    by (simp add: masterLoop_plain)
  have c: "truthy optErr \<and> throttleOn w \<longrightarrow> masterLoop optErr tp tc w = w"
    by (cases "disposed w") (simp_all add: masterLoop_def masterLoop_error throttleLoop_engaged)
  have d: "\<not> disposed w \<longrightarrow>
        \<not> throttleOn (throttleTimerFired w)
        \<and> throttleCall (throttleTimerFired w) = []
        \<and> loopCount (throttleTimerFired w) = loopCount w + 1
        \<and> popsIssued (throttleTimerFired w)
            = popsIssued w + nat (concurrentJobs w - int (length (processing w)))"
    by (simp add: throttleTimerFired_eq)
  have e: "BUFFER_GRACE = 5 \<and> THROTTLE_LIMIT = 5000 \<and> THROTTLE_TIMEOUT = 5000"
    by (simp add: BUFFER_GRACE_def THROTTLE_LIMIT_def THROTTLE_TIMEOUT_def)
  have b: "truthy optErr \<and> \<not> disposed w \<and> \<not> throttleOn w
       \<and> throttleBufferLen w = concurrentJobs w + BUFFER_GRACE \<and> 0 < throttleBufferLen w \<longrightarrow>
        throttleCall (masterLoop optErr tp tc w)
          = drop (length (throttleCall w @ [tp]) - nat (concurrentJobs w + 5)) (throttleCall w @ [tp])
        \<and> length (throttleCall (masterLoop optErr tp tc w)) \<le> nat (concurrentJobs w + 5)
        \<and> throttleCall (masterLoop optErr tp tc w) \<noteq> []
        \<and> last (throttleCall (masterLoop optErr tp tc w)) = tp
        \<and> throttleOn (masterLoop optErr tp tc w)
            = (tc - hd (throttleCall (masterLoop optErr tp tc w)) \<le> 5000)
        \<and> (throttleOn (masterLoop optErr tp tc w) \<longrightarrow>
              throttleTimeout (masterLoop optErr tp tc w) = Some 5000
              \<and> loopCount (masterLoop optErr tp tc w) = loopCount w
              \<and> popsIssued (masterLoop optErr tp tc w) = popsIssued w)
        \<and> (\<not> throttleOn (masterLoop optErr tp tc w) \<longrightarrow>
              loopCount (masterLoop optErr tp tc w) = loopCount w + 1
              \<and> popsIssued (masterLoop optErr tp tc w)
                  = popsIssued w + nat (concurrentJobs w - int (length (processing w))))"
  proof (intro impI, elim conjE)
    assume h: "truthy optErr" "\<not> disposed w" "\<not> throttleOn w"
      "throttleBufferLen w = concurrentJobs w + BUFFER_GRACE" "0 < throttleBufferLen w"
    let ?t = "fst (throttleLoop tp tc w)"
    let ?d = "drop (length (throttleCall w @ [tp]) - nat (throttleBufferLen w)) (throttleCall w @ [tp])"
    note r = throttleLoop_records [OF h(3) h(2) h(5), of tp tc]
    note t = trimmed_nonempty [OF h(5), of "throttleCall w" tp]
    have bl: "throttleBufferLen w = concurrentJobs w + 5" using h(4) e by simp
    have ml: "masterLoop optErr tp tc w =
       (if snd (throttleLoop tp tc w) then ?t
        else ?t\<lparr>loopCount := loopCount w + 1,
                popsIssued := popsIssued w + nat (concurrentJobs w - int (length (processing w)))\<rparr>)"
      using masterLoop_error [OF h(1) h(2), of tp tc] r(5-8) by simp
    have calls: "throttleCall (masterLoop optErr tp tc w) = ?d"
      using r(1) by (simp add: ml)
    have on: "throttleOn (masterLoop optErr tp tc w) = snd (throttleLoop tp tc w)"
      using r(3) by (simp add: ml)
    have lim: "snd (throttleLoop tp tc w) = (tc - hd ?d \<le> 5000)"
      using r(2) r(1) e by simp
    show "throttleCall (masterLoop optErr tp tc w)
          = drop (length (throttleCall w @ [tp]) - nat (concurrentJobs w + 5)) (throttleCall w @ [tp])
        \<and> length (throttleCall (masterLoop optErr tp tc w)) \<le> nat (concurrentJobs w + 5)
        \<and> throttleCall (masterLoop optErr tp tc w) \<noteq> []
        \<and> last (throttleCall (masterLoop optErr tp tc w)) = tp
        \<and> throttleOn (masterLoop optErr tp tc w)
            = (tc - hd (throttleCall (masterLoop optErr tp tc w)) \<le> 5000)
        \<and> (throttleOn (masterLoop optErr tp tc w) \<longrightarrow>
              throttleTimeout (masterLoop optErr tp tc w) = Some 5000
              \<and> loopCount (masterLoop optErr tp tc w) = loopCount w
              \<and> popsIssued (masterLoop optErr tp tc w) = popsIssued w)
        \<and> (\<not> throttleOn (masterLoop optErr tp tc w) \<longrightarrow>
              loopCount (masterLoop optErr tp tc w) = loopCount w + 1
              \<and> popsIssued (masterLoop optErr tp tc w)
                  = popsIssued w + nat (concurrentJobs w - int (length (processing w))))"
    proof (intro conjI impI)
      show "throttleCall (masterLoop optErr tp tc w)
          = drop (length (throttleCall w @ [tp]) - nat (concurrentJobs w + 5)) (throttleCall w @ [tp])"
        using calls bl by simp
      show "length (throttleCall (masterLoop optErr tp tc w)) \<le> nat (concurrentJobs w + 5)"
        using calls t bl by simp
      show "throttleCall (masterLoop optErr tp tc w) \<noteq> []"
        using calls t by simp
      show "last (throttleCall (masterLoop optErr tp tc w)) = tp"
        using calls t by simp
      show "throttleOn (masterLoop optErr tp tc w)
            = (tc - hd (throttleCall (masterLoop optErr tp tc w)) \<le> 5000)"
        using on lim calls by simp
    next
      assume "throttleOn (masterLoop optErr tp tc w)"
      then have s: "snd (throttleLoop tp tc w)" using on by simp
      then show "throttleTimeout (masterLoop optErr tp tc w) = Some 5000"
        using r(4) e by (simp add: ml)
      from s show "loopCount (masterLoop optErr tp tc w) = loopCount w"
        using r(5) by (simp add: ml)
      from s show "popsIssued (masterLoop optErr tp tc w) = popsIssued w"
        using r(6) by (simp add: ml)
    next
      assume "\<not> throttleOn (masterLoop optErr tp tc w)"
      then have s: "\<not> snd (throttleLoop tp tc w)" using on by simp
      then show "loopCount (masterLoop optErr tp tc w) = loopCount w + 1"
        by (simp add: ml)
      from s show "popsIssued (masterLoop optErr tp tc w)
                  = popsIssued w + nat (concurrentJobs w - int (length (processing w)))"
        by (simp add: ml)
    qed
  qed
  from a b c d e show ?thesis by blast
qed

theorem throttle_on_error_path_witness:
  "truthy (JStr ''ECONNREFUSED'') \<and> \<not> disposed busy_worker \<and> \<not> throttleOn busy_worker
   \<and> throttleBufferLen busy_worker = concurrentJobs busy_worker + BUFFER_GRACE
   \<and> 0 < throttleBufferLen busy_worker
   \<and> throttleCall (masterLoop (JStr ''ECONNREFUSED'') 7000 7000 busy_worker)
       = [2000, 3000, 4000, 5000, 6000, 7000]
   \<and> throttleOn (masterLoop (JStr ''ECONNREFUSED'') 7000 7000 busy_worker)
   \<and> throttleTimeout (masterLoop (JStr ''ECONNREFUSED'') 7000 7000 busy_worker) = Some 5000
   \<and> popsIssued (masterLoop (JStr ''ECONNREFUSED'') 7000 7000 busy_worker) = 0
   \<and> \<not> throttleOn (masterLoop (JStr ''ECONNREFUSED'') 7001 7001 busy_worker)
   \<and> popsIssued (masterLoop (JStr ''ECONNREFUSED'') 7001 7001 busy_worker) = 1"
proof -
  let ?e = "JStr ''ECONNREFUSED''"
  have h: "truthy ?e \<and> \<not> disposed busy_worker \<and> \<not> throttleOn busy_worker
     \<and> throttleBufferLen busy_worker = concurrentJobs busy_worker + BUFFER_GRACE
     \<and> 0 < throttleBufferLen busy_worker"
    by (simp add: busy_worker_def scenario_worker_eq BUFFER_GRACE_def)
  have f: "throttleCall busy_worker = [1000, 2000, 3000, 4000, 5000, 6000]
     \<and> concurrentJobs busy_worker = 1 \<and> popsIssued busy_worker = 0
     \<and> processing busy_worker = []"
    by (simp add: busy_worker_def scenario_worker_eq)
  note i1 = throttle_on_error_path [of ?e 7000 7000 busy_worker]
  note i2 = throttle_on_error_path [of ?e 7001 7001 busy_worker]
  from i1 h have c1: "throttleCall (masterLoop ?e 7000 7000 busy_worker)
      = drop (length (throttleCall busy_worker @ [7000]) - nat (concurrentJobs busy_worker + 5))
          (throttleCall busy_worker @ [7000])"
    by blast
  then have c1': "throttleCall (masterLoop ?e 7000 7000 busy_worker)
      = [2000, 3000, 4000, 5000, 6000, 7000]"
    using f by simp
  from i1 h have "throttleOn (masterLoop ?e 7000 7000 busy_worker)
      = (7000 - hd (throttleCall (masterLoop ?e 7000 7000 busy_worker)) \<le> 5000)"
    by blast
  then have on1: "throttleOn (masterLoop ?e 7000 7000 busy_worker)"
    using c1' by simp
  from i1 h on1 have t1: "throttleTimeout (masterLoop ?e 7000 7000 busy_worker) = Some 5000
     \<and> popsIssued (masterLoop ?e 7000 7000 busy_worker) = popsIssued busy_worker"
    by blast
  from i2 h have c2: "throttleCall (masterLoop ?e 7001 7001 busy_worker)
      = drop (length (throttleCall busy_worker @ [7001]) - nat (concurrentJobs busy_worker + 5))
          (throttleCall busy_worker @ [7001])"
    by blast
  then have c2': "throttleCall (masterLoop ?e 7001 7001 busy_worker)
      = [2000, 3000, 4000, 5000, 6000, 7001]"
    using f by simp
  from i2 h have "throttleOn (masterLoop ?e 7001 7001 busy_worker)
      = (7001 - hd (throttleCall (masterLoop ?e 7001 7001 busy_worker)) \<le> 5000)"
    by blast
  then have on2: "\<not> throttleOn (masterLoop ?e 7001 7001 busy_worker)"
    using c2' by simp
  from i2 h on2 have "popsIssued (masterLoop ?e 7001 7001 busy_worker)
      = popsIssued busy_worker + nat (concurrentJobs busy_worker - int (length (processing busy_worker)))"
    by blast
  then have p2: "popsIssued (masterLoop ?e 7001 7001 busy_worker) = 1"
    using f by simp
  from h c1' on1 t1 on2 p2 f show ?thesis by simp
qed

section \<open>Completion and timeout of one attempt\<close>

lemma processing_throttleLoop: "processing (fst (throttleLoop tp tc w)) = processing w"
  by (simp add: throttleLoop_def Let_def split: list.splits)

lemma processing_masterLoop: "processing (masterLoop e a b w) = processing w"
proof (cases "truthy e \<and> \<not> disposed w")
  case True
  then show ?thesis by (simp add: masterLoop_error processing_throttleLoop)
next
  case False
  then show ?thesis by (auto simp: masterLoop_plain masterLoop_def)
qed

lemma workFinish_call:
  "workFinish t err j w = (w1, Some c) \<Longrightarrow>
     job_id (oc_job c) = job_id j \<and> processing w1 = AList.delete (job_id j) (processing w)
     \<and> map_of (processing w) (job_id j) \<noteq> None"
  by (auto simp: workFinish_def addProcessItem_def Let_def split: if_splits option.splits)

lemma workFinish_absent:
  "map_of (processing w) (job_id j) = None \<Longrightarrow>
     snd (workFinish t err j w) = None \<and> processing (fst (workFinish t err j w)) = processing w"
  by (simp add: workFinish_def processing_masterLoop)

lemma workFinish_no_call:
  "workFinish t err j w = (w1, None) \<Longrightarrow> processing w1 = processing w"
  by (auto simp: workFinish_def processing_masterLoop Let_def split: if_splits option.splits)

lemma workTimeout_call:
  "workTimeout t j w = (w1, Some c) \<Longrightarrow>
     job_id (oc_job c) = job_id j \<and> processing w1 = AList.delete (job_id j) (processing w)
     \<and> map_of (processing w) (job_id j) \<noteq> None"
  by (auto simp: workTimeout_def Let_def split: if_splits option.splits)

lemma workTimeout_no_call:
  "workTimeout t j w = (w1, None) \<Longrightarrow> processing w1 = processing w"
  by (auto simp: workTimeout_def processing_masterLoop Let_def split: if_splits option.splits)

lemma workTimeout_inflight:
  "\<not> disposed w \<Longrightarrow> map_of (processing w) (job_id j) = Some p \<Longrightarrow>
   workTimeout now j w =
     (w\<lparr>processing := AList.delete (job_id j) (processing w)\<rparr>,
      Some \<lparr>oc_job = j\<lparr>lastError := JStr ''processing timed out''\<rparr>,
            oc_item = p\<lparr>processTime := now - startTime p, pi_state := Process_GHOST,
                        errorMessage := JStr ''processing timed out''\<rparr>,
            oc_success = False, oc_timedOut = True\<rparr>)"
  by (simp add: workTimeout_def Let_def)

text \<open>What one entry point does to the in-flight map, seen from one job id.\<close>

lemma handle_call_removes:
  "handle e w = (w1, Some c) \<Longrightarrow> map_of (processing w1) (job_id (oc_job c)) = None"
proof (cases e)
  case (Start t r j)
  assume h: "handle e w = (w1, Some c)"
  show ?thesis
  proof (cases "disposed w")
    case True
    with h Start show ?thesis by (simp add: workStart_def)
  next
    case False
    let ?w = "w\<lparr>processing := AList.update (job_id j)
                 ((ProcessItem t j)\<lparr>timeout := Some (processTimeout j)\<rparr>) (processing w)\<rparr>"
    show ?thesis
    proof (cases r)
      case (ThrowsSync ex)
      with h Start False have "workFinish t ex j ?w = (w1, Some c)"
        by (simp add: workStart_def Let_def split: prod.splits)
      from workFinish_call [OF this] show ?thesis by (simp add: delete_conv)
    next
      case (DoneSync err)
      with h Start False have "workFinish t err j ?w = (w1, Some c)"
        by (simp add: workStart_def Let_def split: prod.splits)
      from workFinish_call [OF this] show ?thesis by (simp add: delete_conv)
    next
      case Running
      with h Start False show ?thesis by (simp add: workStart_def Let_def)
    qed
  qed
next
  case (Finish t err j)
  assume "handle e w = (w1, Some c)"
  with Finish have "workFinish t err j w = (w1, Some c)" by simp
  from workFinish_call [OF this] show ?thesis by (simp add: delete_conv)
next
  case (Timeout t j)
  assume "handle e w = (w1, Some c)"
  with Timeout have "workTimeout t j w = (w1, Some c)" by simp
  from workTimeout_call [OF this] show ?thesis by (simp add: delete_conv)
next
  case (Loop x a b)
  assume "handle e w = (w1, Some c)"
  with Loop show ?thesis by simp
next
  case ThrottleTimer
  assume "handle e w = (w1, Some c)"
  with ThrottleTimer show ?thesis by simp
qed


lemma workFinish_keeps_absent:
  assumes "map_of (processing w) i = None" "workFinish t err j w = (w1, c)"
  shows "map_of (processing w1) i = None \<and> (\<forall>x. c = Some x \<longrightarrow> job_id (oc_job x) \<noteq> i)"
proof (cases c)
  case None
  with assms workFinish_no_call [of t err j w w1] show ?thesis by simp
next
  case (Some x)
  with assms(2) have "workFinish t err j w = (w1, Some x)" by simp
  from workFinish_call [OF this] assms(1) Some show ?thesis by (auto simp: delete_conv)
qed

lemma workTimeout_keeps_absent:
  assumes "map_of (processing w) i = None" "workTimeout t j w = (w1, c)"
  shows "map_of (processing w1) i = None \<and> (\<forall>x. c = Some x \<longrightarrow> job_id (oc_job x) \<noteq> i)"
proof (cases c)
  case None
  with assms workTimeout_no_call [of t j w w1] show ?thesis by simp
next
  case (Some x)
  with assms(2) have "workTimeout t j w = (w1, Some x)" by simp
  from workTimeout_call [OF this] assms(1) Some show ?thesis by (auto simp: delete_conv)
qed

lemma workStart_keeps_absent:
  assumes "map_of (processing w) i = None" "job_id j \<noteq> i"
  shows "map_of (processing (sr_worker (workStart t r j w))) i = None
     \<and> (\<forall>x. sr_call (workStart t r j w) = Some x \<longrightarrow> job_id (oc_job x) \<noteq> i)"
proof (cases "disposed w")
  case True
  with assms show ?thesis by (simp add: workStart_def)
next
  case False
  let ?w = "w\<lparr>processing := AList.update (job_id j)
               ((ProcessItem t j)\<lparr>timeout := Some (processTimeout j)\<rparr>) (processing w)\<rparr>"
  have a: "map_of (processing ?w) i = None" using assms by (simp add: update_conv)
  show ?thesis
  proof (cases r)
    case (ThrowsSync ex)
    obtain w1 c where f: "workFinish t ex j ?w = (w1, c)" by (cases "workFinish t ex j ?w")
    from workFinish_keeps_absent [OF a f] f ThrowsSync False show ?thesis
      by (simp add: workStart_def Let_def)
  next
    case (DoneSync err)
    obtain w1 c where f: "workFinish t err j ?w = (w1, c)" by (cases "workFinish t err j ?w")
    from workFinish_keeps_absent [OF a f] f DoneSync False show ?thesis
      by (simp add: workStart_def Let_def)
  next
    case Running
    with a False show ?thesis by (simp add: workStart_def Let_def)
  qed
qed

lemma handle_keeps_absent:
  assumes "map_of (processing w) i = None" "\<not> starts i e" "handle e w = (w1, c)"
  shows "map_of (processing w1) i = None \<and> (\<forall>x. c = Some x \<longrightarrow> job_id (oc_job x) \<noteq> i)"
proof (cases e)
  case (Start t r j)
  with assms(2) have "job_id j \<noteq> i" by simp
  from workStart_keeps_absent [OF assms(1) this, of t r] assms(3) Start show ?thesis
    by (auto simp: Let_def)
next
  case (Finish t err j)
  with assms(3) have "workFinish t err j w = (w1, c)" by simp
  from workFinish_keeps_absent [OF assms(1) this] show ?thesis .
next
  case (Timeout t j)
  with assms(3) have "workTimeout t j w = (w1, c)" by simp
  from workTimeout_keeps_absent [OF assms(1) this] show ?thesis .
next
  case (Loop x a b)
  with assms show ?thesis by (auto simp: processing_masterLoop)
next
  case ThrottleTimer
  with assms show ?thesis by (auto simp: throttleTimerFired_def processing_masterLoop)
qed

lemma snd_run_Cons:
  "snd (run (e # es) w) =
     (case snd (handle e w) of None \<Rightarrow> [] | Some x \<Rightarrow> [x]) @ snd (run es (fst (handle e w)))"
  by (simp add: Let_def split: prod.splits option.splits)

lemma run_keeps_absent:
  "map_of (processing w) i = None \<Longrightarrow> \<forall>e \<in> set evs. \<not> starts i e
   \<Longrightarrow> \<forall>c \<in> set (snd (run evs w)). job_id (oc_job c) \<noteq> i"
proof (induction evs arbitrary: w)
  case Nil
  then show ?case by simp
next
  case (Cons e evs)
  obtain w1 c where h: "handle e w = (w1, c)" by (cases "handle e w")
  from Cons.prems have ne: "\<not> starts i e" and rest: "\<forall>e \<in> set evs. \<not> starts i e" by simp_all
  from handle_keeps_absent [OF Cons.prems(1) ne h]
  have a: "map_of (processing w1) i = None" and b: "\<forall>x. c = Some x \<longrightarrow> job_id (oc_job x) \<noteq> i"
    by simp_all
  from Cons.IH [OF a rest] have ih: "\<forall>c \<in> set (snd (run evs w1)). job_id (oc_job c) \<noteq> i" .
  show ?case using h ih b by (cases c) (simp_all add: snd_run_Cons del: run.simps)
qed

lemma run_at_most_one:
  "\<forall>e \<in> set evs. \<not> starts i e
   \<Longrightarrow> length (filter (\<lambda>c. job_id (oc_job c) = i) (snd (run evs w))) \<le> 1"
proof (induction evs arbitrary: w)
  case Nil
  then show ?case by simp
next
  case (Cons e evs)
  obtain w1 c where h: "handle e w = (w1, c)" by (cases "handle e w")
  from Cons.prems have rest: "\<forall>e \<in> set evs. \<not> starts i e" by simp
  show ?case
  proof (cases "\<exists>x. c = Some x \<and> job_id (oc_job x) = i")
    case True
    then obtain x where x: "c = Some x" "job_id (oc_job x) = i" by blast
    from handle_call_removes [of e w w1 x] h x have "map_of (processing w1) i = None" by simp
    from run_keeps_absent [OF this rest]
    have "filter (\<lambda>c. job_id (oc_job c) = i) (snd (run evs w1)) = []"
      by (simp add: filter_empty_conv)
    with h x show ?thesis by (simp add: snd_run_Cons del: run.simps)
  next
    case False
    with h Cons.IH [OF rest, of w1] show ?thesis
      by (cases c) (simp_all add: snd_run_Cons del: run.simps)
  qed
qed

text \<open>
  Claim C7, amended. Take a live worker with the job in flight. When the per-job timer fires, the
  worker removes the Process Item from the in-flight map, marks it GHOST, and calls the
  outcome processor with \<open>success = false\<close> and \<open>timedOut = true\<close>. From then on a
  call of the completion callback for that job id finds no Process Item: it makes no call
  of the outcome processor and leaves the in-flight map as it is, and so does every
  sequence of later calls of the worker's entry points that does not dispatch the job
  again. Counted from the dispatch, the entry points make at most one call of the outcome
  processor for the job, in whatever order timer and callbacks arrive.
\<close>

theorem timeout_then_completion_ignored:
  "\<not> disposed w \<and> map_of (processing w) (job_id j) = Some p
     \<and> (\<forall>e \<in> set evs. \<not> starts (job_id j) e) \<longrightarrow>
   workTimeout now j w =
     (w\<lparr>processing := AList.delete (job_id j) (processing w)\<rparr>,
      Some \<lparr>oc_job = j\<lparr>lastError := JStr ''processing timed out''\<rparr>,
            oc_item = p\<lparr>processTime := now - startTime p, pi_state := Process_GHOST,
                        errorMessage := JStr ''processing timed out''\<rparr>,
            oc_success = False, oc_timedOut = True\<rparr>)
   \<and> map_of (processing (fst (workTimeout now j w))) (job_id j) = None
   \<and> (\<forall>t err j'. job_id j' = job_id j \<longrightarrow>
         snd (workFinish t err j' (fst (workTimeout now j w))) = None
         \<and> processing (fst (workFinish t err j' (fst (workTimeout now j w))))
             = processing (fst (workTimeout now j w)))
   \<and> (\<forall>c \<in> set (snd (run evs (fst (workTimeout now j w)))). job_id (oc_job c) \<noteq> job_id j)
   \<and> length (filter (\<lambda>c. job_id (oc_job c) = job_id j) (snd (run evs w))) \<le> 1"
proof (intro impI, elim conjE)
  assume live: "\<not> disposed w" and inflight: "map_of (processing w) (job_id j) = Some p"
    and evs: "\<forall>e \<in> set evs. \<not> starts (job_id j) e"
  note t = workTimeout_inflight [OF live inflight, of now]
  have gone: "map_of (processing (fst (workTimeout now j w))) (job_id j) = None"
    by (simp add: t delete_conv)
  have later: "\<forall>t err j'. job_id j' = job_id j \<longrightarrow>
         snd (workFinish t err j' (fst (workTimeout now j w))) = None
         \<and> processing (fst (workFinish t err j' (fst (workTimeout now j w))))
             = processing (fst (workTimeout now j w))"
    using gone workFinish_absent by metis
  from t gone later run_keeps_absent [OF gone evs] run_at_most_one [OF evs, of w]
  show "workTimeout now j w =
     (w\<lparr>processing := AList.delete (job_id j) (processing w)\<rparr>,
      Some \<lparr>oc_job = j\<lparr>lastError := JStr ''processing timed out''\<rparr>,
            oc_item = p\<lparr>processTime := now - startTime p, pi_state := Process_GHOST,
                        errorMessage := JStr ''processing timed out''\<rparr>,
            oc_success = False, oc_timedOut = True\<rparr>)
   \<and> map_of (processing (fst (workTimeout now j w))) (job_id j) = None
   \<and> (\<forall>t err j'. job_id j' = job_id j \<longrightarrow>
         snd (workFinish t err j' (fst (workTimeout now j w))) = None
         \<and> processing (fst (workFinish t err j' (fst (workTimeout now j w))))
             = processing (fst (workTimeout now j w)))
   \<and> (\<forall>c \<in> set (snd (run evs (fst (workTimeout now j w)))). job_id (oc_job c) \<noteq> job_id j)
   \<and> length (filter (\<lambda>c. job_id (oc_job c) = job_id j) (snd (run evs w))) \<le> 1"
    by blast
qed


theorem timeout_then_completion_ignored_witness:
  "\<not> disposed inflight_worker
   \<and> map_of (processing inflight_worker) (job_id scenario_job)
       = Some ((ProcessItem 100 scenario_job)\<lparr>timeout := Some 50\<rparr>)
   \<and> snd (workTimeout 150 scenario_job inflight_worker) =
       Some \<lparr>oc_job = scenario_job\<lparr>lastError := JStr ''processing timed out''\<rparr>,
             oc_item = \<lparr>count = 1, startTime = 100, processTime = 50, pi_state = Process_GHOST,
                        errorMessage = JStr ''processing timed out'', timeout = Some 50\<rparr>,
             oc_success = False, oc_timedOut = True\<rparr>
   \<and> snd (workFinish 200 (JStr ''late'') scenario_job
            (fst (workTimeout 150 scenario_job inflight_worker))) = None
   \<and> length (filter (\<lambda>c. job_id (oc_job c) = job_id scenario_job)
         (snd (run [Timeout 150 scenario_job, Finish 200 (JStr ''late'') scenario_job,
                    Finish 201 JNull scenario_job] inflight_worker))) \<le> 1"
proof -
  let ?p = "(ProcessItem 100 scenario_job)\<lparr>timeout := Some 50\<rparr>"
  let ?evs = "[Timeout 150 scenario_job, Finish 200 (JStr ''late'') scenario_job,
               Finish 201 JNull scenario_job]"
  have live: "\<not> disposed inflight_worker" by (simp add: inflight_worker_eq)
  have inflight: "map_of (processing inflight_worker) (job_id scenario_job) = Some ?p"
    by (simp add: inflight_worker_eq scenario_job_def ProcessItem_def)
  have evs: "\<forall>e \<in> set ?evs. \<not> starts (job_id scenario_job) e" by simp
  have p: "?p\<lparr>processTime := 150 - startTime ?p, pi_state := Process_GHOST,
               errorMessage := JStr ''processing timed out''\<rparr>
           = \<lparr>count = 1, startTime = 100, processTime = 50, pi_state = Process_GHOST,
              errorMessage = JStr ''processing timed out'', timeout = Some 50\<rparr>"
    by (simp add: ProcessItem_def scenario_job_def)
  note inst = timeout_then_completion_ignored [of inflight_worker scenario_job ?p ?evs 150]
  from inst live inflight evs
  have a: "workTimeout 150 scenario_job inflight_worker =
     (inflight_worker\<lparr>processing := AList.delete (job_id scenario_job) (processing inflight_worker)\<rparr>,
      Some \<lparr>oc_job = scenario_job\<lparr>lastError := JStr ''processing timed out''\<rparr>,
            oc_item = ?p\<lparr>processTime := 150 - startTime ?p, pi_state := Process_GHOST,
                         errorMessage := JStr ''processing timed out''\<rparr>,
            oc_success = False, oc_timedOut = True\<rparr>)"
    by blast
  from inst live inflight evs
  have b: "snd (workFinish 200 (JStr ''late'') scenario_job
            (fst (workTimeout 150 scenario_job inflight_worker))) = None"
    by blast
  from inst live inflight evs
  have c: "length (filter (\<lambda>c. job_id (oc_job c) = job_id scenario_job)
         (snd (run ?evs inflight_worker))) \<le> 1"
    by blast
  from a p have a': "snd (workTimeout 150 scenario_job inflight_worker) =
       Some \<lparr>oc_job = scenario_job\<lparr>lastError := JStr ''processing timed out''\<rparr>,
             oc_item = \<lparr>count = 1, startTime = 100, processTime = 50, pi_state = Process_GHOST,
                        errorMessage = JStr ''processing timed out'', timeout = Some 50\<rparr>,
             oc_success = False, oc_timedOut = True\<rparr>"
    by simp
  from live inflight a' b c show ?thesis by blast
qed

section \<open>Retry exhaustion\<close>

lemma disposed_throttleLoop: "disposed (fst (throttleLoop tp tc w)) = disposed w"
  by (simp add: throttleLoop_def Let_def split: list.splits)

lemma disposed_masterLoop: "disposed (masterLoop e a b w) = disposed w"
proof (cases "truthy e \<and> \<not> disposed w")
  case True
  then show ?thesis by (simp add: masterLoop_error disposed_throttleLoop)
next
  case False
  then show ?thesis by (auto simp: masterLoop_plain masterLoop_def)
qed

text \<open>One attempt that the worker classifies as failed, on a live worker.\<close>

lemma process_job_failed_attempt:
  assumes "\<not> disposed w" "\<not> determineSuccess (a_reply a)"
  shows "\<exists>w' p. \<not> disposed w' \<and> pi_state p = Process_FAIL \<and>
     process_job (a # rest) w j n =
       (if terminal (processedError (a_processed a)
                       (j\<lparr>lastError := a_reply a, runs := runs j @ [p], x_processCount := None\<rparr>))
        then (processedError (a_processed a)
                (j\<lparr>lastError := a_reply a, runs := runs j @ [p], x_processCount := None\<rparr>), Suc n)
        else process_job rest w'
               (popped (processedError (a_processed a)
                  (j\<lparr>lastError := a_reply a, runs := runs j @ [p], x_processCount := None\<rparr>)))
               (Suc n))"
proof -
  let ?p0 = "(ProcessItem (a_start a) j)\<lparr>timeout := Some (processTimeout j)\<rparr>"
  let ?w1 = "w\<lparr>processing := AList.update (job_id j) ?p0 (processing w)\<rparr>"
  let ?p = "?p0\<lparr>processTime := a_done a - startTime ?p0, pi_state := Process_FAIL,
                errorMessage := a_reply a\<rparr>"
  let ?w2 = "?w1\<lparr>processing := AList.delete (job_id j) (processing ?w1)\<rparr>"
  let ?c = "\<lparr>oc_job = addProcessItem ?p (j\<lparr>lastError := a_reply a\<rparr>), oc_item = ?p,
            oc_success = False, oc_timedOut = False\<rparr>"
  let ?w' = "masterLoop JNull (a_processed a) (a_processed a) ?w2"
  have s: "sr_worker (workStart (a_start a) Running j w) = ?w1"
    using assms(1) by (simp add: workStart_def Let_def)
  have f: "workFinish (a_done a) (a_reply a) j ?w1 = (?w2, Some ?c)"
    using assms by (simp add: workFinish_def Let_def update_conv)
  have live: "\<not> disposed ?w'" using assms(1) by (simp add: disposed_masterLoop)
  have fj: "final_job (processed storage_ok False False (a_processed a) (oc_job ?c))
      = processedError (a_processed a)
          (j\<lparr>lastError := a_reply a, runs := runs j @ [?p], x_processCount := None\<rparr>)"
    by (simp add: final_job_processed transition_def addProcessItem_def)
  have "process_job (a # rest) w j n =
       (if terminal (processedError (a_processed a)
                       (j\<lparr>lastError := a_reply a, runs := runs j @ [?p], x_processCount := None\<rparr>))
        then (processedError (a_processed a)
                (j\<lparr>lastError := a_reply a, runs := runs j @ [?p], x_processCount := None\<rparr>), Suc n)
        else process_job rest ?w'
               (popped (processedError (a_processed a)
                  (j\<lparr>lastError := a_reply a, runs := runs j @ [?p], x_processCount := None\<rparr>)))
               (Suc n))"
    using s f fj by (simp add: Let_def)
  moreover have "pi_state ?p = Process_FAIL" by simp
  ultimately show ?thesis using live by blast
qed


lemma processed_error_state:
  "state (final_job (processed st False False now j)) =
     (if retry j \<and> int (length (runs j)) < retryTimes j then Some Job_RETRY else Some Job_FAIL)"
  by (simp add: final_job_processed transition_def processedError_def finishJob_def Let_def)

text \<open>
  Claim C1, amended. A failed attempt leaves the job in RETRY when \<open>retry\<close> is on and
  \<open>runs\<close>, which already holds the Process Item of the attempt, is shorter than
  \<open>retryTimes\<close>; in FAIL otherwise. So a fresh job with \<open>retry\<close> on and
  \<open>retryTimes = 2\<close> whose first two attempts are classified as failed ends in FAIL
  after those two attempts, however many more are on offer: two entries in \<open>runs\<close>, both
  FAIL, \<open>success = false\<close>, \<open>complete\<close>.
\<close>

theorem retry_exhaustion_after_two_attempts:
  "state (final_job (processed st False False now j0)) =
     (if retry j0 \<and> int (length (runs j0)) < retryTimes j0 then Some Job_RETRY else Some Job_FAIL)
   \<and> (retry j \<and> retryTimes j = 2 \<and> runs j = [] \<and> \<not> disposed w
       \<and> \<not> determineSuccess (a_reply a1) \<and> \<not> determineSuccess (a_reply a2) \<longrightarrow>
        snd (process_job (a1 # a2 # rest) w j 0) = 2
        \<and> state (fst (process_job (a1 # a2 # rest) w j 0)) = Some Job_FAIL
        \<and> success (fst (process_job (a1 # a2 # rest) w j 0)) = Some False
        \<and> complete (fst (process_job (a1 # a2 # rest) w j 0))
        \<and> length (runs (fst (process_job (a1 # a2 # rest) w j 0))) = 2
        \<and> map pi_state (runs (fst (process_job (a1 # a2 # rest) w j 0)))
            = [Process_FAIL, Process_FAIL])"
proof (rule conjI, rule processed_error_state, rule impI, elim conjE)
  assume h: "retry j" "retryTimes j = 2" "runs j = []" "\<not> disposed w"
    "\<not> determineSuccess (a_reply a1)" "\<not> determineSuccess (a_reply a2)"
  from process_job_failed_attempt [OF h(4) h(5), of "a2 # rest" j 0]
  obtain w1 p1 where w1: "\<not> disposed w1" and p1: "pi_state p1 = Process_FAIL"
    and s1: "process_job (a1 # a2 # rest) w j 0 =
       (if terminal (processedError (a_processed a1)
                       (j\<lparr>lastError := a_reply a1, runs := runs j @ [p1], x_processCount := None\<rparr>))
        then (processedError (a_processed a1)
                (j\<lparr>lastError := a_reply a1, runs := runs j @ [p1], x_processCount := None\<rparr>), Suc 0)
        else process_job (a2 # rest) w1
               (popped (processedError (a_processed a1)
                  (j\<lparr>lastError := a_reply a1, runs := runs j @ [p1], x_processCount := None\<rparr>)))
               (Suc 0))"
    by blast
  let ?j1 = "j\<lparr>lastError := a_reply a1, runs := [p1], x_processCount := None,
               state := Some Job_PROCESSING\<rparr>"
  have e1: "processedError (a_processed a1)
              (j\<lparr>lastError := a_reply a1, runs := runs j @ [p1], x_processCount := None\<rparr>)
            = j\<lparr>lastError := a_reply a1, runs := [p1], x_processCount := None,
                state := Some Job_RETRY\<rparr>"
    using h(1-3) by (simp add: processedError_def)
  have s1': "process_job (a1 # a2 # rest) w j 0 = process_job (a2 # rest) w1 ?j1 (Suc 0)"
    unfolding s1 e1 by (simp add: terminal_def popped_def)
  from process_job_failed_attempt [OF w1 h(6), of rest ?j1 "Suc 0"]
  obtain w2 p2 where p2: "pi_state p2 = Process_FAIL"
    and s2: "process_job (a2 # rest) w1 ?j1 (Suc 0) =
       (if terminal (processedError (a_processed a2)
                       (?j1\<lparr>lastError := a_reply a2, runs := runs ?j1 @ [p2], x_processCount := None\<rparr>))
        then (processedError (a_processed a2)
                (?j1\<lparr>lastError := a_reply a2, runs := runs ?j1 @ [p2], x_processCount := None\<rparr>), Suc (Suc 0))
        else process_job rest w2
               (popped (processedError (a_processed a2)
                  (?j1\<lparr>lastError := a_reply a2, runs := runs ?j1 @ [p2], x_processCount := None\<rparr>)))
               (Suc (Suc 0)))"
    by blast
  have e2: "processedError (a_processed a2)
              (?j1\<lparr>lastError := a_reply a2, runs := runs ?j1 @ [p2], x_processCount := None\<rparr>)
            = finishJob False (a_processed a2)
                (?j1\<lparr>lastError := a_reply a2, runs := [p1, p2], x_processCount := None\<rparr>)"
    using h(1-2) by (simp add: processedError_def)
  have s2': "process_job (a1 # a2 # rest) w j 0 =
      (finishJob False (a_processed a2)
         (?j1\<lparr>lastError := a_reply a2, runs := [p1, p2], x_processCount := None\<rparr>), 2)"
    unfolding s1' s2 e2 by (simp add: terminal_def finishJob_def)
  show "snd (process_job (a1 # a2 # rest) w j 0) = 2
        \<and> state (fst (process_job (a1 # a2 # rest) w j 0)) = Some Job_FAIL
        \<and> success (fst (process_job (a1 # a2 # rest) w j 0)) = Some False
        \<and> complete (fst (process_job (a1 # a2 # rest) w j 0))
        \<and> length (runs (fst (process_job (a1 # a2 # rest) w j 0))) = 2
        \<and> map pi_state (runs (fst (process_job (a1 # a2 # rest) w j 0)))
            = [Process_FAIL, Process_FAIL]"
    unfolding s2' using p1 p2 by (simp add: finishJob_def)
qed

theorem retry_exhaustion_after_two_attempts_witness:
  "retry (scenario_job\<lparr>retryTimes := 2\<rparr>) \<and> retryTimes (scenario_job\<lparr>retryTimes := 2\<rparr>) = 2
   \<and> runs (scenario_job\<lparr>retryTimes := 2\<rparr>) = [] \<and> \<not> disposed scenario_worker
   \<and> \<not> determineSuccess (a_reply (error_attempt 100))
   \<and> snd (process_job [error_attempt 100, error_attempt 200, error_attempt 300]
            scenario_worker (scenario_job\<lparr>retryTimes := 2\<rparr>) 0) = 2
   \<and> state (fst (process_job [error_attempt 100, error_attempt 200, error_attempt 300]
            scenario_worker (scenario_job\<lparr>retryTimes := 2\<rparr>) 0)) = Some Job_FAIL
   \<and> length (runs (fst (process_job [error_attempt 100, error_attempt 200, error_attempt 300]
            scenario_worker (scenario_job\<lparr>retryTimes := 2\<rparr>) 0))) = 2"
proof -
  let ?j = "scenario_job\<lparr>retryTimes := 2\<rparr>"
  have h: "retry ?j \<and> retryTimes ?j = 2 \<and> runs ?j = [] \<and> \<not> disposed scenario_worker
     \<and> \<not> determineSuccess (a_reply (error_attempt 100))
     \<and> \<not> determineSuccess (a_reply (error_attempt 200))"
    by (simp add: scenario_job_def scenario_worker_eq error_attempt_def determineSuccess_def)
  from retry_exhaustion_after_two_attempts [of _ _ ?j ?j scenario_worker "error_attempt 100"
      "error_attempt 200" "[error_attempt 300]"] h
  show ?thesis by blast
qed

text \<open>
  Claim C1, as stated, at the scenario job with \<open>retryTimes = 2\<close> and three attempts on
  offer that each report the error \<open>oops\<close>: the job is in FAIL after the second attempt,
  with two entries in \<open>runs\<close>; the third attempt is never made.
\<close>

theorem retry_exhaustion_counterexample:
  "snd (process_job [error_attempt 100, error_attempt 200, error_attempt 300]
          scenario_worker (scenario_job\<lparr>retryTimes := 2\<rparr>) 0) = 2
   \<and> state (fst (process_job [error_attempt 100, error_attempt 200, error_attempt 300]
          scenario_worker (scenario_job\<lparr>retryTimes := 2\<rparr>) 0)) = Some Job_FAIL
   \<and> length (runs (fst (process_job [error_attempt 100, error_attempt 200, error_attempt 300]
          scenario_worker (scenario_job\<lparr>retryTimes := 2\<rparr>) 0))) = 2
   \<and> length (runs (fst (process_job [error_attempt 100, error_attempt 200, error_attempt 300]
          scenario_worker (scenario_job\<lparr>retryTimes := 2\<rparr>) 0))) \<noteq> 3"
  by (simp add: scenario_worker_eq scenario_job_def error_attempt_def workStart_def workFinish_def
        determineSuccess_def ProcessItem_def addProcessItem_def processed_def transition_def
        processedError_def finishJob_def storage_ok_def terminal_def popped_def masterLoop_plain
        Let_def)

section \<open>Failure of create\<close>

lemma create_incr_fails:
  "incr_err io = Some msg \<Longrightarrow> msg \<noteq> [] \<Longrightarrow>
     create io m = \<lparr>cr_model = m, cr_steps = [Incr], cr_outcome = CreateRejected (Database msg)\<rparr>"
  by (simp add: create_def)

lemma saveSettled_rejected:
  "cr_outcome r = CreateRejected e \<Longrightarrow> \<not> c_disposed c \<Longrightarrow> c_deferred c = Pending \<Longrightarrow>
     c_deferred (fst (saveSettled doneCb r c)) = Rejected (Typed e)
     \<and> snd (saveSettled doneCb r c) = doneCb (DoneError (Typed e))"
  by (simp add: saveSettled_def onFail_def rejectDeferred_def Let_def split: option.splits)

lemma saveSettled_resolved:
  "cr_outcome r = CreateResolved \<Longrightarrow> snd (saveSettled doneCb r c) = None"
  by (simp add: saveSettled_def onSuccess_def Let_def split: option.splits)

lemma onSuccess_grounds:
  "\<not> c_disposed c \<Longrightarrow> c_deferred c = Pending \<Longrightarrow>
     onSuccess doneCb c =
       (case doneCb (DoneCreated (c_job c)) of
          Some ex \<Rightarrow> (c\<lparr>c_deferred := Rejected (Raised ex)\<rparr>, None)
        | None \<Rightarrow> (c\<lparr>c_deferred := Resolved (c_job c)\<rparr>, None))"
  by (simp add: onSuccess_def rejectDeferred_def resolveDeferred_def Let_def split: option.splits)

lemma save_eq:
  "save doneCb io c =
     saveSettled doneCb (create io \<lparr>job = Some (c_job c), jobId = job_id (c_job c), hasJobItem = True\<rparr>) c"
  by (simp add: save_def)

text \<open>
  Claim C8, amended. On a \<^verbatim>\<open>Create\<close> instance that is not disposed and whose deferred is
  still pending, every failure of \<^verbatim>\<open>JobModel.create\<close> rejects the deferred with the typed
  error that the job model reported, whether the user's callback returns or throws; a
  failing \<^verbatim>\<open>incr\<close> is reported as a Database error. Nothing is thrown when the callback
  returns normally, and on the success path nothing is thrown at all: an exception of the
  callback becomes the rejection of the deferred.
\<close>

theorem create_failure_rejects_deferred:
  "(\<not> c_disposed c \<and> c_deferred c = Pending
      \<and> cr_outcome (create io \<lparr>job = Some (c_job c), jobId = job_id (c_job c), hasJobItem = True\<rparr>)
          = CreateRejected e \<longrightarrow>
        c_deferred (fst (save doneCb io c)) = Rejected (Typed e)
        \<and> (doneCb (DoneError (Typed e)) = None \<longrightarrow> snd (save doneCb io c) = None))
   \<and> (\<not> c_disposed c \<and> c_deferred c = Pending \<and> cr_outcome r = CreateRejected e \<longrightarrow>
        c_deferred (fst (saveSettled doneCb r c)) = Rejected (Typed e)
        \<and> (doneCb (DoneError (Typed e)) = None \<longrightarrow> snd (saveSettled doneCb r c) = None))
   \<and> (incr_err io = Some msg \<and> msg \<noteq> [] \<longrightarrow>
        cr_outcome (create io m) = CreateRejected (Database msg))
   \<and> (cr_outcome r = CreateResolved \<longrightarrow> snd (saveSettled doneCb r c) = None)
   \<and> (\<not> c_disposed c \<and> c_deferred c = Pending \<and> doneCb (DoneCreated (c_job c)) = Some ex \<longrightarrow>
        onSuccess doneCb c = (c\<lparr>c_deferred := Rejected (Raised ex)\<rparr>, None))"
proof -
  have a: "\<not> c_disposed c \<and> c_deferred c = Pending \<and> cr_outcome r = CreateRejected e \<longrightarrow>
        c_deferred (fst (saveSettled doneCb r c)) = Rejected (Typed e)
        \<and> (doneCb (DoneError (Typed e)) = None \<longrightarrow> snd (saveSettled doneCb r c) = None)" for r
    using saveSettled_rejected [of r e c doneCb] by simp
  have b: "incr_err io = Some msg \<and> msg \<noteq> [] \<longrightarrow>
        cr_outcome (create io m) = CreateRejected (Database msg)"
    by (simp add: create_incr_fails)
  have c: "cr_outcome r = CreateResolved \<longrightarrow> snd (saveSettled doneCb r c) = None"
    by (simp add: saveSettled_resolved)
  have d: "\<not> c_disposed c \<and> c_deferred c = Pending \<and> doneCb (DoneCreated (c_job c)) = Some ex \<longrightarrow>
        onSuccess doneCb c = (c\<lparr>c_deferred := Rejected (Raised ex)\<rparr>, None)"
    by (simp add: onSuccess_grounds)
  from a [of "create io \<lparr>job = Some (c_job c), jobId = job_id (c_job c), hasJobItem = True\<rparr>"]
    a [of r] b c d
  show ?thesis unfolding save_eq by blast
qed

theorem create_failure_rejects_deferred_witness:
  "\<not> c_disposed fresh_create \<and> c_deferred fresh_create = Pending
   \<and> cr_outcome (create redis_down \<lparr>job = Some (c_job fresh_create),
                    jobId = job_id (c_job fresh_create), hasJobItem = True\<rparr>)
       = CreateRejected (Database ''ECONNREFUSED'')
   \<and> c_deferred (fst (save (\<lambda>args. None) redis_down fresh_create))
       = Rejected (Typed (Database ''ECONNREFUSED''))
   \<and> snd (save (\<lambda>args. None) redis_down fresh_create) = None"
proof -
  let ?m = "\<lparr>job = Some (c_job fresh_create), jobId = job_id (c_job fresh_create), hasJobItem = True\<rparr>"
  have h: "\<not> c_disposed fresh_create \<and> c_deferred fresh_create = Pending"
    by (simp add: fresh_create_def)
  have i: "incr_err redis_down = Some ''ECONNREFUSED'' \<and> ''ECONNREFUSED'' \<noteq> []"
    by (simp add: redis_down_def)
  note inst = create_failure_rejects_deferred [of fresh_create redis_down "Database ''ECONNREFUSED''"
      "\<lambda>args. None" _ "''ECONNREFUSED''" ?m]
  from inst i have o: "cr_outcome (create redis_down ?m) = CreateRejected (Database ''ECONNREFUSED'')"
    by blast
  from inst h o have "c_deferred (fst (save (\<lambda>args. None) redis_down fresh_create))
       = Rejected (Typed (Database ''ECONNREFUSED''))
     \<and> snd (save (\<lambda>args. None) redis_down fresh_create) = None"
    by blast
  with h o show ?thesis by blast
qed

text \<open>
  Claim C8, as stated, at an instance disposed while \<^verbatim>\<open>create\<close> was running: \<^verbatim>\<open>incr\<close>
  fails, the job model rejects with a Database error, and the failure handler returns at
  its guard; the deferred stays pending.
\<close>

theorem create_failure_disposed_counterexample:
  "cr_outcome (create redis_down \<lparr>job = Some (c_job fresh_create),
                  jobId = job_id (c_job fresh_create), hasJobItem = True\<rparr>)
     = CreateRejected (Database ''ECONNREFUSED'')
   \<and> c_deferred (fst (saveSettled (\<lambda>args. None)
        (create redis_down \<lparr>job = Some (c_job fresh_create),
                  jobId = job_id (c_job fresh_create), hasJobItem = True\<rparr>)
        (disposeCreate fresh_create))) = Pending
   \<and> c_deferred (fst (onFail (\<lambda>args. None) (Typed (Database ''ECONNREFUSED''))
        (disposeCreate fresh_create))) = Pending"
  by (simp add: create_def redis_down_def fresh_create_def saveSettled_def onFail_def
        disposeCreate_def Let_def)

section \<open>Timeouts through the worker\<close>

lemma transition_timeout_ghost:
  assumes "ghostRetry j" "0 \<le> ghostTimes j" "\<forall>p \<in> set (runs j). pi_state p \<noteq> Process_GHOST"
  shows "transition False True now j = j\<lparr>x_processCount := None, state := Some Job_GHOST\<rparr>"
proof -
  have "filter (\<lambda>p. pi_state p = Process_GHOST) (runs j) = []"
    using assms(3) by (simp add: filter_empty_conv)
  then have "ghostCount (runs j) = 0" by (simp add: ghostCount_filter)
  with assms(1,2) show ?thesis
    by (simp add: transition_def processedTimeout_def Let_def)
qed

lemma timeout_job_step:
  assumes "\<not> disposed w" "ghostRetry j" "0 \<le> ghostTimes j"
    "\<forall>p \<in> set (runs j). pi_state p \<noteq> Process_GHOST"
  shows "\<exists>w'. \<not> disposed w' \<and>
     timeout_job (a # rest) w j n =
       (if rest = []
        then (j\<lparr>state := Some Job_GHOST, lastError := JStr ''processing timed out'',
                 x_processCount := None\<rparr>, Suc n)
        else timeout_job rest w'
               (j\<lparr>state := Some Job_GHOST, lastError := JStr ''processing timed out'',
                   x_processCount := None\<rparr>) (Suc n))"
proof -
  let ?j0 = "popped j"
  let ?p0 = "(ProcessItem (g_start a) ?j0)\<lparr>timeout := Some (processTimeout ?j0)\<rparr>"
  let ?w1 = "w\<lparr>processing := AList.update (job_id ?j0) ?p0 (processing w)\<rparr>"
  let ?jt = "?j0\<lparr>lastError := JStr ''processing timed out''\<rparr>"
  let ?J = "j\<lparr>state := Some Job_GHOST, lastError := JStr ''processing timed out'',
                 x_processCount := None\<rparr>"
  have s: "sr_worker (workStart (g_start a) Running ?j0 w) = ?w1"
    using assms(1) by (simp add: workStart_def Let_def)
  have live1: "\<not> disposed ?w1" using assms(1) by simp
  have inflight: "map_of (processing ?w1) (job_id ?j0) = Some ?p0" by (simp add: update_conv)
  note t = workTimeout_inflight [OF live1 inflight, of "g_fired a"]
  let ?w2 = "?w1\<lparr>processing := AList.delete (job_id ?j0) (processing ?w1)\<rparr>"
  let ?w' = "masterLoop JNull (g_processed a) (g_processed a) ?w2"
  have live: "\<not> disposed ?w'" using assms(1) by (simp add: disposed_masterLoop)
  have g: "ghostRetry ?jt" "0 \<le> ghostTimes ?jt" "\<forall>p \<in> set (runs ?jt). pi_state p \<noteq> Process_GHOST"
    using assms(2-4) by (simp_all add: popped_def)
  have fj: "final_job (processed storage_ok False True (g_processed a) ?jt) = ?J"
    unfolding final_job_processed transition_timeout_ghost [OF g] by (simp add: popped_def)
  have nt: "\<not> terminal ?J" by (simp add: terminal_def)
  have "timeout_job (a # rest) w j n =
       (if rest = [] then (?J, Suc n) else timeout_job rest ?w' ?J (Suc n))"
    using s t fj nt by (simp add: Let_def)
  with live show ?thesis by blast
qed

lemma timeout_job_ghosts:
  "\<not> disposed w \<Longrightarrow> ghostRetry j \<Longrightarrow> 0 \<le> ghostTimes j
   \<Longrightarrow> \<forall>p \<in> set (runs j). pi_state p \<noteq> Process_GHOST \<Longrightarrow> as \<noteq> []
   \<Longrightarrow> snd (timeout_job as w j n) = n + length as
       \<and> state (fst (timeout_job as w j n)) = Some Job_GHOST
       \<and> runs (fst (timeout_job as w j n)) = runs j"
proof (induction as arbitrary: w j n)
  case Nil
  then show ?case by simp
next
  case (Cons a rest)
  let ?J = "j\<lparr>state := Some Job_GHOST, lastError := JStr ''processing timed out'',
                 x_processCount := None\<rparr>"
  from timeout_job_step [OF Cons.prems(1-4), of a rest n]
  obtain w' where live: "\<not> disposed w'"
    and st: "timeout_job (a # rest) w j n =
       (if rest = [] then (?J, Suc n) else timeout_job rest w' ?J (Suc n))"
    by blast
  show ?case
  proof (cases "rest = []")
    case True
    with st show ?thesis by simp
  next
    case False
    have g: "ghostRetry ?J" "0 \<le> ghostTimes ?J" "\<forall>p \<in> set (runs ?J). pi_state p \<noteq> Process_GHOST"
      using Cons.prems(2-4) by simp_all
    from Cons.IH [OF live g False, of "Suc n"] st False show ?thesis by simp
  qed
qed

text \<open>
  Claim C3. The scenario job has \<open>ghostRetry\<close> on and \<open>ghostTimes = 1\<close>, so after
  \<open>ghostTimes + 1 = 2\<close> timed-out attempts it should be in FAIL. Run through the worker,
  three attempts that all time out leave it in GHOST, to be queued again: \<^verbatim>\<open>_workTimeout\<close>
  marks the Process Item GHOST but does not add it to the job, so \<open>runs\<close> stays empty and
  the count that the outcome processor compares with \<open>ghostTimes\<close> stays 0. (By
  \<open>timeout_job_ghosts\<close> the same holds for any number of attempts.)
\<close>

theorem ghost_retry_never_exhausted:
  "ghostRetry scenario_job \<and> ghostTimes scenario_job = 1
   \<and> snd (timeout_job [ghost_attempt 100, ghost_attempt 200, ghost_attempt 300]
            scenario_worker scenario_job 0) = 3
   \<and> state (fst (timeout_job [ghost_attempt 100, ghost_attempt 200, ghost_attempt 300]
            scenario_worker scenario_job 0)) = Some Job_GHOST
   \<and> runs (fst (timeout_job [ghost_attempt 100, ghost_attempt 200, ghost_attempt 300]
            scenario_worker scenario_job 0)) = []
   \<and> ghostCount (runs (fst (timeout_job [ghost_attempt 100, ghost_attempt 200, ghost_attempt 300]
            scenario_worker scenario_job 0))) = 0"
proof -
  have h: "\<not> disposed scenario_worker" "ghostRetry scenario_job" "0 \<le> ghostTimes scenario_job"
    "\<forall>p \<in> set (runs scenario_job). pi_state p \<noteq> Process_GHOST"
    by (simp_all add: scenario_worker_eq scenario_job_def)
  have r: "runs scenario_job = []" "ghostTimes scenario_job = 1"
    by (simp_all add: scenario_job_def)
  from timeout_job_ghosts [OF h, of "[ghost_attempt 100, ghost_attempt 200, ghost_attempt 300]" 0]
    h(2) r
  show ?thesis by (simp add: ghostCount_def)
qed

lemma scenario_timeout:
  "workTimeout 150 scenario_job inflight_worker =
     (inflight_worker\<lparr>processing := []\<rparr>,
      Some \<lparr>oc_job = scenario_job\<lparr>lastError := JStr ''processing timed out''\<rparr>,
            oc_item = \<lparr>count = 1, startTime = 100, processTime = 50, pi_state = Process_GHOST,
                       errorMessage = JStr ''processing timed out'', timeout = Some 50\<rparr>,
            oc_success = False, oc_timedOut = True\<rparr>)"
  by (simp add: inflight_worker_eq workTimeout_def scenario_job_def Let_def)

text \<open>
  Claim C6. The order of the three storage operations is as claimed on every path
  (\<open>processed_effects_prefix\<close>). The record saved contains the Process Item of the attempt
  on the completion path only: for the scenario job timing out at time 150 the record
  saved and enqueued has an empty \<open>runs\<close>, the GHOST item of the attempt having been
  handed to no one, while for the same job reporting an error at time 107 it holds the
  item of the attempt.
\<close>

theorem timeout_saves_record_without_item:
  "snd (workTimeout 150 scenario_job inflight_worker) =
     Some \<lparr>oc_job = scenario_job\<lparr>lastError := JStr ''processing timed out''\<rparr>,
           oc_item = \<lparr>count = 1, startTime = 100, processTime = 50, pi_state = Process_GHOST,
                      errorMessage = JStr ''processing timed out'', timeout = Some 50\<rparr>,
           oc_success = False, oc_timedOut = True\<rparr>
   \<and> effects (processed storage_ok False True 151
                (scenario_job\<lparr>lastError := JStr ''processing timed out''\<rparr>)) =
       [UpdateStateIndex (Some Job_PROCESSING) (Some Job_GHOST),
        SaveRecord (scenario_job\<lparr>lastError := JStr ''processing timed out'',
                                  state := Some Job_GHOST\<rparr>),
        Enqueue (scenario_job\<lparr>lastError := JStr ''processing timed out'',
                               state := Some Job_GHOST\<rparr>)]
   \<and> runs (scenario_job\<lparr>lastError := JStr ''processing timed out'', state := Some Job_GHOST\<rparr>) = []
   \<and> snd (workFinish 107 (JStr ''oops'') scenario_job inflight_worker) =
       Some \<lparr>oc_job = scenario_job\<lparr>lastError := JStr ''oops'', runs := [failed_run]\<rparr>,
             oc_item = failed_run, oc_success = False, oc_timedOut = False\<rparr>
   \<and> effects (processed storage_ok False False 108
                (scenario_job\<lparr>lastError := JStr ''oops'', runs := [failed_run]\<rparr>)) =
       [UpdateStateIndex (Some Job_PROCESSING) (Some Job_RETRY),
        SaveRecord (scenario_job\<lparr>lastError := JStr ''oops'', runs := [failed_run],
                                  state := Some Job_RETRY\<rparr>),
        Enqueue (scenario_job\<lparr>lastError := JStr ''oops'', runs := [failed_run],
                               state := Some Job_RETRY\<rparr>)]"
proof -
  have a: "effects (processed storage_ok False True 151
                (scenario_job\<lparr>lastError := JStr ''processing timed out''\<rparr>)) =
       [UpdateStateIndex (Some Job_PROCESSING) (Some Job_GHOST),
        SaveRecord (scenario_job\<lparr>lastError := JStr ''processing timed out'',
                                  state := Some Job_GHOST\<rparr>),
        Enqueue (scenario_job\<lparr>lastError := JStr ''processing timed out'',
                               state := Some Job_GHOST\<rparr>)]"
    by (simp add: effects_processed storage_ok_def transition_def processedTimeout_def
          ghostCount_def scenario_job_def)
  have b: "effects (processed storage_ok False False 108
                (scenario_job\<lparr>lastError := JStr ''oops'', runs := [failed_run]\<rparr>)) =
       [UpdateStateIndex (Some Job_PROCESSING) (Some Job_RETRY),
        SaveRecord (scenario_job\<lparr>lastError := JStr ''oops'', runs := [failed_run],
                                  state := Some Job_RETRY\<rparr>),
        Enqueue (scenario_job\<lparr>lastError := JStr ''oops'', runs := [failed_run],
                               state := Some Job_RETRY\<rparr>)]"
    by (simp add: effects_processed storage_ok_def transition_def processedError_def
          scenario_job_def)
  have c: "runs (scenario_job\<lparr>lastError := JStr ''processing timed out'', state := Some Job_GHOST\<rparr>) = []"
    by (simp add: scenario_job_def)
  from a b c show ?thesis by (simp add: scenario_timeout scenario_finish_oops)
qed

lemma redelivered_job_eq:
  "redelivered_job = scenario_job\<lparr>lastError := JStr ''processing timed out''\<rparr>"
  by (simp add: redelivered_job_def ghost_attempt_def scenario_worker_eq scenario_job_def
        workStart_def workTimeout_def ProcessItem_def popped_def processed_def transition_def
        processedTimeout_def ghostCount_def storage_ok_def terminal_def Let_def)

text \<open>
  Claim C7, as stated, at the scenario job: its first attempt times out at time 150, the
  job is popped again and dispatched to the same worker at time 160, and at time 200 the
  consumer of the first attempt calls its completion callback. The callback is bound to
  the job and the in-flight map is keyed by the job id, so the call finds the Process Item
  of the second attempt and completes it: a second call of the outcome processor for the
  job, made by an invocation later than the timeout.
\<close>

theorem late_completion_after_redispatch_counterexample:
  "job_id redelivered_job = job_id scenario_job
   \<and> map (\<lambda>c. (job_id (oc_job c), oc_success c, oc_timedOut c, pi_state (oc_item c)))
       (snd (run [Timeout 150 scenario_job, Start 160 Running redelivered_job,
                  Finish 200 (JStr ''late'') scenario_job] inflight_worker))
     = [(Some ''1'', False, True, Process_GHOST), (Some ''1'', False, False, Process_FAIL)]
   \<and> snd (workFinish 200 (JStr ''late'') scenario_job
        (fst (run [Timeout 150 scenario_job, Start 160 Running redelivered_job] inflight_worker)))
     = Some \<lparr>oc_job = scenario_job\<lparr>lastError := JStr ''late'',
                 runs := [\<lparr>count = 1, startTime = 160, processTime = 40, pi_state = Process_FAIL,
                           errorMessage = JStr ''late'', timeout = Some 50\<rparr>]\<rparr>,
             oc_item = \<lparr>count = 1, startTime = 160, processTime = 40, pi_state = Process_FAIL,
                        errorMessage = JStr ''late'', timeout = Some 50\<rparr>,
             oc_success = False, oc_timedOut = False\<rparr>"
  by (simp add: redelivered_job_eq inflight_worker_eq scenario_job_def workTimeout_def
        workStart_def workFinish_def ProcessItem_def addProcessItem_def determineSuccess_def
        Let_def)

end
